theory Spec2Isabelle
  imports Complex_Main "HOL-Library.AList"
begin

section \<open>Data model of \<^verbatim>\<open>src/app/actions.ts\<close>\<close>

text \<open>
  A \<^verbatim>\<open>Task\<close> is the interface of the source; the field \<^verbatim>\<open>id\<close> is called
  \<open>task_id\<close> here because \<open>id\<close> is the identity function of HOL.
\<close>

record task =
  task_id :: int
  name :: string
  completed :: bool
  responsible :: string
  description :: string

text \<open>
  \<^verbatim>\<open>TasksState\<close> is a JavaScript object whose own properties are the categories. It is
  modelled by the list of its own (key, value) pairs in enumeration order; the first pair
  with a given key is the property.
\<close>

type_synonym tasks_state = "(string \<times> task list) list"

text \<open>
  The entries of the stored activity log have two shapes: \<^verbatim>\<open>addActivityLog\<close> writes
  \<^verbatim>\<open>{type, message, timestamp}\<close> and \<^verbatim>\<open>initializeRedisData\<close> seeds
  \<^verbatim>\<open>{id, timestamp, action, description, user}\<close>. A time stamp is the clock reading in
  epoch milliseconds; for the seed entry it stands for the ISO string of that reading.
\<close>

datatype log_entry =
    ActivityLogEntry (entry_type: string) (message: string) (timestamp: int)
  | SeedLogEntry (seed_id: int) (seed_timestamp: int) (seed_action: string)
      (seed_description: string) (seed_user: string)

text \<open>The two other documents are only ever written whole; they are kept as JSON values.\<close>

datatype json =
    JNull
  | JBool bool
  | JNumber int
  | JString string
  | JDate int
  | JObject "(string \<times> json) list"

text \<open>
  What the code can throw: an error raised by the Redis client, a \<^verbatim>\<open>TypeError\<close> of the
  language, \<^verbatim>\<open>Error(`Task not found: category=..., id=...`)\<close> and
  \<^verbatim>\<open>Error('Failed to update task status')\<close>.
\<close>

datatype error =
    StorageError
  | TypeError
  | TaskNotFound string int
  | FailedToUpdateTaskStatus

section \<open>JavaScript numbers\<close>

text \<open>
  \<^verbatim>\<open>completedTasks / totalTasks\<close> and \<^verbatim>\<open>* 100\<close> are IEEE 754 binary64 operations:
  the exact result is rounded to the nearest number with a 53-bit significand, ties to
  the even significand. Doubles are represented by the rationals they denote. The
  exponent range is left unbounded: the operands here are array lengths and 100, far
  from overflow and from the subnormal range.
\<close>

text \<open>The number of binary digits of a positive integer.\<close>

function bits :: "int \<Rightarrow> nat" where
  "bits n = (if n \<le> 0 then 0 else Suc (bits (n div 2)))"
  by pat_completeness auto
termination
  by (relation "measure nat") auto

definition pow2 :: "int \<Rightarrow> rat" where
  "pow2 e = (if 0 \<le> e then 2 ^ nat e else 1 / 2 ^ nat (- e))"

text \<open>For \<open>x > 0\<close>, the exponent \<open>k\<close> with \<open>2\<^sup>k \<le> x < 2\<^sup>k\<^sup>+\<^sup>1\<close>: the difference of the
  bit lengths of numerator and denominator, or one less.\<close>

definition floor_log2 :: "rat \<Rightarrow> int" where
  "floor_log2 x =
     (let (p, q) = quotient_of x;
          d = int (bits p) - int (bits q)
      in if pow2 d \<le> x then d else d - 1)"

definition round_half_even :: "rat \<Rightarrow> int" where
  "round_half_even y =
     (let f = \<lfloor>y\<rfloor>; r = y - of_int f
      in if r < 1 / 2 then f
         else if 1 / 2 < r then f + 1
         else if even f then f else f + 1)"

text \<open>Rounding to binary64: \<open>x\<close> is scaled to a significand in \<open>[2\<^sup>5\<^sup>2, 2\<^sup>5\<^sup>3)\<close>, the
  significand is rounded to an integer and scaled back.\<close>

definition fl :: "rat \<Rightarrow> rat" where
  "fl x = (if x = 0 then 0
           else let e = floor_log2 \<bar>x\<bar> - 52
                in of_int (round_half_even (x / pow2 e)) * pow2 e)"

definition js_div :: "rat \<Rightarrow> rat \<Rightarrow> rat" where
  "js_div a b = fl (a / b)"

definition js_mul :: "rat \<Rightarrow> rat \<Rightarrow> rat" where
  "js_mul a b = fl (a * b)"

text \<open>\<^verbatim>\<open>Math.round\<close>: the nearest integer, a tie going to the larger one.\<close>

definition Math_round :: "rat \<Rightarrow> int" where
  "Math_round x = \<lfloor>x + 1 / 2\<rfloor>"

section \<open>Property access\<close>

text \<open>
  \<^verbatim>\<open>tasks[category]\<close> reads an own property when there is one and otherwise walks to
  \<^verbatim>\<open>Object.prototype\<close>, whose members are functions (and, for \<^verbatim>\<open>__proto__\<close>, the
  prototype object): truthy values that are not arrays. Every other key gives
  \<^verbatim>\<open>undefined\<close>.
\<close>

definition object_prototype_keys :: "string list" where
  "object_prototype_keys =
     [''constructor'', ''__defineGetter__'', ''__defineSetter__'', ''hasOwnProperty'',
      ''__lookupGetter__'', ''__lookupSetter__'', ''isPrototypeOf'',
      ''propertyIsEnumerable'', ''toString'', ''valueOf'', ''__proto__'',
      ''toLocaleString'']"

datatype property = Undefined | TaskArray "task list" | PrototypeMember

definition get_property :: "tasks_state \<Rightarrow> string \<Rightarrow> property" where
  "get_property tasks category =
     (case map_of tasks category of
        Some ts \<Rightarrow> TaskArray ts
      | None \<Rightarrow> if category \<in> set object_prototype_keys then PrototypeMember else Undefined)"

section \<open>Completion calculator\<close>

text \<open>The expression that both calculators end with:
  \<^verbatim>\<open>totalTasks > 0 ? Math.round((completedTasks / totalTasks) * 100) : 0\<close>.\<close>

definition percentage :: "nat \<Rightarrow> nat \<Rightarrow> int" where
  "percentage completedTasks totalTasks =
     (if 0 < totalTasks
      then Math_round (js_mul (js_div (of_nat completedTasks) (of_nat totalTasks)) 100)
      else 0)"

text \<open>
  \<^verbatim>\<open>calculateCompletion\<close>. The parameter has the type \<^verbatim>\<open>TasksState\<close>, so the
  \<^verbatim>\<open>!tasks\<close> test is never true. A prototype member passes the truthiness test and
  has no \<^verbatim>\<open>filter\<close> method, so the call throws a \<^verbatim>\<open>TypeError\<close>.
\<close>

definition calculateCompletion :: "tasks_state \<Rightarrow> string \<Rightarrow> error + int" where
  "calculateCompletion tasks category =
     (case get_property tasks category of
        Undefined \<Rightarrow> Inr 0
      | PrototypeMember \<Rightarrow> Inl TypeError
      | TaskArray ts \<Rightarrow>
          (let totalTasks = length ts;
               completedTasks = length (filter completed ts)
           in Inr (percentage completedTasks totalTasks)))"

text \<open>\<^verbatim>\<open>calculateOverallCompletion\<close>: \<^verbatim>\<open>Object.values(tasks).flat()\<close> is the concatenation
  of the own property values.\<close>

definition calculateOverallCompletion :: "tasks_state \<Rightarrow> int" where
  "calculateOverallCompletion tasks =
     (let allTasks = concat (map snd tasks);
          totalTasks = length allTasks;
          completedTasks = length (filter completed allTasks)
      in percentage completedTasks totalTasks)"

section \<open>The static default catalog (\<^verbatim>\<open>getDefaultTasks\<close>)\<close>

definition default_indiancashback :: "task list" where
  \<open>default_indiancashback = [
    \<lparr>task_id = 1,
     name = ''Optimize cashback category pages'',
     completed = False,
     responsible = ''SEO Analyst'',
     description = (''Enhance category pages (Fashion, Home, Electronics, etc.) with unique descriptions, relevant keywords, and proper H1-H6 structure. Improves topical relevance and user engagement for IndianCashback'' @ [CHR 0x27] @ ''s core offerings.'')\<rparr>,
    \<lparr>task_id = 2,
     name = ''Implement merchant-specific schema markup'',
     completed = False,
     responsible = ''Frontend Developer'',
     description = ''Add structured data for cashback offers, store ratings, and merchant information. Enables rich snippets in search results showing cashback percentages and merchant ratings to improve CTR.''\<rparr>,
    \<lparr>task_id = 3,
     name = ''Create merchant comparison content'',
     completed = False,
     responsible = ''Content Writer'',
     description = ''Develop in-depth comparison content between popular merchants (e.g., Amazon vs Flipkart cashback). Target high-value keywords that shoppers use when comparing cashback options.''\<rparr>,
    \<lparr>task_id = 4,
     name = ''Optimize site for "cashback + [store name]" keywords'',
     completed = False,
     responsible = ''SEO Analyst'',
     description = ''Audit and optimize individual store pages for high-volume "cashback + [store name]" searches (e.g., "Amazon cashback", "Flipkart cashback"). Focus on title tags, meta descriptions, and content.''\<rparr>,
    \<lparr>task_id = 5,
     name = ''Create seasonal cashback guides'',
     completed = False,
     responsible = ''Content Writer'',
     description = ''Develop content for seasonal shopping events (Diwali, Republic Day, End of Season) showcasing highest cashback offers. Target seasonal shopping keywords to capture time-specific traffic.''\<rparr>,
    \<lparr>task_id = 6,
     name = ''Implement FAQ schema for cashback questions'',
     completed = False,
     responsible = ''Frontend Developer'',
     description = (''Add FAQ schema markup to answer common cashback questions. Improves chances of appearing in Google'' @ [CHR 0x27] @ ''s featured snippets and "People also ask" sections for cashback-related queries.'')\<rparr>,
    \<lparr>task_id = 7,
     name = ''Create mobile app promotion structure'',
     completed = False,
     responsible = ''Frontend Developer'',
     description = (''Optimize app download pages with structured data and app indexing. Improves visibility of IndianCashback'' @ [CHR 0x27] @ ''s mobile app in search results and enables app-specific search features.'')\<rparr>,
    \<lparr>task_id = 8,
     name = ''Implement user review schema'',
     completed = False,
     responsible = ''Frontend Developer'',
     description = ''Add schema markup for user reviews and ratings of IndianCashback service. Generates star ratings in search results to improve credibility and click-through rates.''\<rparr>]\<close>

definition default_india_specific :: "task list" where
  \<open>default_india_specific = [
    \<lparr>task_id = 1,
     name = ''Optimize for India-specific search engines'',
     completed = False,
     responsible = ''SEO Analyst'',
     description = ''While Google dominates the Indian market, ensure visibility on other platforms like Yahoo India. Different search engines may prioritize different ranking factors.''\<rparr>,
    \<lparr>task_id = 2,
     name = ''Implement hreflang for regional targeting'',
     completed = False,
     responsible = ''Frontend Developer'',
     description = ''Add hreflang tags to specify that content is targeted for Indian users (hi-IN, en-IN). Helps search engines serve the appropriate version of the site to users based on language and location.''\<rparr>,
    \<lparr>task_id = 3,
     name = ''Create Hindi language content'',
     completed = False,
     responsible = ''Content Writer'',
     description = ''Develop key pages in Hindi to reach broader Indian audience. Focus on popular shopping categories and cashback explanation content to improve visibility in Hindi-language searches.''\<rparr>,
    \<lparr>task_id = 4,
     name = ''Register with Webmaster tools for Indian search engines'',
     completed = False,
     responsible = ''SEO Analyst'',
     description = ''Submit sitemaps to Google India and other relevant local search platforms. Ensures proper indexing and monitoring of site performance in Indian search results.''\<rparr>,
    \<lparr>task_id = 5,
     name = ''Target India-specific shopping festivals'',
     completed = False,
     responsible = ''Content Writer'',
     description = ''Create SEO content targeting major Indian shopping events like Great Indian Festival, Big Billion Days, and Diwali sales. Optimize for festival-specific shopping keyword combinations.''\<rparr>,
    \<lparr>task_id = 6,
     name = ''Optimize for mobile search'',
     completed = False,
     responsible = ''Frontend Developer'',
     description = ''India is primarily a mobile-first market with over 700 million smartphone users. Ensure site is fully responsive, loads quickly on slower connections, and passes mobile-friendly tests.''\<rparr>,
    \<lparr>task_id = 7,
     name = ''Build location-specific landing pages'',
     completed = False,
     responsible = ''Content Writer'',
     description = ''Create optimized pages for major Indian cities (Delhi, Mumbai, Bangalore, etc.) with locally relevant cashback offers. Target "[city] + cashback" keywords to capture location-specific searches.''\<rparr>,
    \<lparr>task_id = 8,
     name = ''Optimize for voice search in Indian English'',
     completed = False,
     responsible = ''SEO Analyst'',
     description = ''Implement natural language patterns common in Indian English for voice search queries. Target long-tail conversational queries like "What is the best cashback for Flipkart in Delhi?"''\<rparr>]\<close>

definition default_indiancashback_backlinks :: "task list" where
  \<open>default_indiancashback_backlinks = [
    \<lparr>task_id = 1,
     name = ''Analyze Indian cashback competitor backlinks'',
     completed = False,
     responsible = ''SEO Analyst'',
     description = ''Conduct thorough analysis of backlink profiles for competing cashback sites like CashKaro, GrabOn, and PaisaWapas. Identify high-quality backlink sources to target for IndianCashback.''\<rparr>,
    \<lparr>task_id = 2,
     name = ''Create partner outreach program'',
     completed = False,
     responsible = ''Marketing'',
     description = ''Develop outreach strategy for Indian finance bloggers, deal sites, and shopping communities. Create partnership opportunities with mutual benefits to secure relevant backlinks.''\<rparr>,
    \<lparr>task_id = 3,
     name = ''Build relationships with Indian e-commerce reviewers'',
     completed = False,
     responsible = ''Marketing'',
     description = ''Connect with bloggers and YouTubers who review Indian e-commerce platforms. Provide exclusive cashback offers or affiliate partnerships in exchange for mentions and links.''\<rparr>,
    \<lparr>task_id = 4,
     name = ''Develop shareable cashback infographics'',
     completed = False,
     responsible = ''Content Writer'',
     description = ''Create data-driven infographics about Indian online shopping trends, cashback savings statistics, or festival shopping guides that will attract backlinks from news sites and blogs.''\<rparr>,
    \<lparr>task_id = 5,
     name = ''Guest post on Indian personal finance sites'',
     completed = False,
     responsible = ''Content Writer'',
     description = ''Identify top Indian personal finance blogs and pitch valuable content about saving money through cashback while shopping online. Focus on educational content with natural links to IndianCashback.''\<rparr>,
    \<lparr>task_id = 6,
     name = ''Create a merchant-specific resource center'',
     completed = False,
     responsible = ''Content Writer'',
     description = ''Develop comprehensive guides for maximizing cashback from major Indian retailers. Create link-worthy resources that shopping blogs and deal sites will reference and link to.''\<rparr>,
    \<lparr>task_id = 7,
     name = ''Implement HARO strategy for Indian media'',
     completed = False,
     responsible = ''SEO Analyst'',
     description = ''Utilize Help A Reporter Out (HARO) to connect with Indian journalists writing about e-commerce, online shopping, or personal finance. Provide expert quotes on cashback topics to earn media mentions and links.''\<rparr>,
    \<lparr>task_id = 8,
     name = ''Create broken link building campaign'',
     completed = False,
     responsible = ''SEO Analyst'',
     description = ''Identify broken links on Indian shopping, finance, and deal websites that point to defunct cashback resources. Create replacement content and reach out to webmasters with your solution.''\<rparr>]\<close>

definition default_indiancashback_technical :: "task list" where
  \<open>default_indiancashback_technical = [
    \<lparr>task_id = 1,
     name = ''Optimize merchant page URL structure'',
     completed = False,
     responsible = ''Frontend Developer'',
     description = ''Implement SEO-friendly URLs for merchant pages (e.g., indiancashback.com/amazon instead of indiancashback.com/store?id=12345). Clean, keyword-rich URLs improve both rankings and user trust.''\<rparr>,
    \<lparr>task_id = 2,
     name = ''Implement cashback offer pagination'',
     completed = False,
     responsible = ''Frontend Developer'',
     description = ''Add proper rel="next" and rel="prev" pagination for category pages with many cashback offers. Helps search engines understand content relationship and index offers efficiently.''\<rparr>,
    \<lparr>task_id = 3,
     name = ''Optimize site for Core Web Vitals'',
     completed = False,
     responsible = ''Frontend Developer'',
     description = (''Ensure LCP, FID, and CLS scores meet Google'' @ [CHR 0x27] @ ''s standards on both mobile and desktop. Page experience is particularly important for cashback sites where users compare multiple offers.'')\<rparr>,
    \<lparr>task_id = 4,
     name = ''Implement price range schema'',
     completed = False,
     responsible = ''Frontend Developer'',
     description = ''Add schema markup for cashback percentage ranges on category pages. Helps search engines understand offer values and can enhance rich snippets in search results.''\<rparr>,
    \<lparr>task_id = 5,
     name = ''Create dynamic sitemap for offers'',
     completed = False,
     responsible = ''Backend Developer'',
     description = ''Implement dynamically generated sitemap that updates with new cashback offers and merchants. Ensures search engines can discover and index new offers quickly.''\<rparr>,
    \<lparr>task_id = 6,
     name = ''Fix merchant page duplicate content'',
     completed = False,
     responsible = ''SEO Analyst'',
     description = ''Audit and fix duplicate content issues across similar merchant pages. Implement unique content templates and canonical tags to prevent dilution of ranking signals.''\<rparr>,
    \<lparr>task_id = 7,
     name = ''Optimize cashback tracking parameters'',
     completed = False,
     responsible = ''Backend Developer'',
     description = (''Ensure affiliate tracking parameters don'' @ [CHR 0x27] @ ''t create duplicate content issues. Configure URL parameters in Google Search Console and implement proper canonicalization.'')\<rparr>,
    \<lparr>task_id = 8,
     name = ''Implement Progressive Web App'',
     completed = False,
     responsible = ''Frontend Developer'',
     description = ''Convert site to PWA to improve mobile experience and enable offline functionality. PWAs typically have better engagement metrics, which indirectly improve SEO performance.''\<rparr>]\<close>

definition default_technical :: "task list" where
  \<open>default_technical = [
    \<lparr>task_id = 1,
     name = ''Configure robots.txt'',
     completed = False,
     responsible = ''Frontend Developer'',
     description = ''Tells search engines which pages to crawl and which to ignore. Improves crawl efficiency and prevents indexing of sensitive or duplicate content. Directly impacts which pages appear in search results.''\<rparr>,
    \<lparr>task_id = 2,
     name = ''Fix broken links'',
     completed = False,
     responsible = ''Frontend Developer'',
     description = ''Prevents users from encountering 404 errors. Search engines penalize sites with broken links as they indicate poor maintenance. Improves user experience and preserves link equity throughout the site.''\<rparr>,
    \<lparr>task_id = 3,
     name = ''Implement SSL certificate'',
     completed = False,
     responsible = ''Frontend Developer'',
     description = ''Enables HTTPS, which is a direct ranking factor. Secures data transmission and builds user trust. Google Chrome marks non-HTTPS sites as "Not Secure," potentially increasing bounce rates.''\<rparr>,
    \<lparr>task_id = 4,
     name = ''Create XML sitemap'',
     completed = False,
     responsible = ''Frontend Developer'',
     description = ''Provides search engines with a complete map of all pages on your site. Increases crawling efficiency and ensures important pages are discovered and indexed. Required for Google Search Console submission.''\<rparr>,
    \<lparr>task_id = 5,
     name = ''Minify CSS/JS files'',
     completed = False,
     responsible = ''Frontend Developer'',
     description = ''Reduces file sizes by removing unnecessary characters. Improves page load speed, which is a direct ranking factor. Better speed improves user experience metrics like Time to First Byte (TTFB).''\<rparr>,
    \<lparr>task_id = 6,
     name = ''Enable GZIP compression'',
     completed = False,
     responsible = ''Frontend Developer'',
     description = ''Compresses web files before sending them to the browser. Can reduce transfer size by up to 70%, significantly improving load speeds. Better speed directly impacts Core Web Vitals metrics used for ranking.''\<rparr>,
    \<lparr>task_id = 7,
     name = ''Implement lazy loading'',
     completed = False,
     responsible = ''Frontend Developer'',
     description = (''Defers loading of off-screen images until users scroll to them. Improves initial page load speed and Core Web Vitals metrics (LCP, CLS). Reduces bandwidth usage for users who don'' @ [CHR 0x27] @ ''t scroll the entire page.'')\<rparr>,
    \<lparr>task_id = 8,
     name = ''Fix 404 pages'',
     completed = False,
     responsible = ''Frontend Developer'',
     description = ''Creates custom 404 pages that guide users back to functioning content. Reduces bounce rates when users encounter broken links. Preserves user experience and prevents search engines from indexing error pages.''\<rparr>]\<close>

definition default_content :: "task list" where
  \<open>default_content = [
    \<lparr>task_id = 1,
     name = ''Implement title tags'',
     completed = False,
     responsible = ''Frontend Developer'',
     description = ''Primary ranking factor that tells search engines what the page is about. Appears as the clickable headline in search results. Properly optimized titles with primary keywords improve CTR and rankings.''\<rparr>,
    \<lparr>task_id = 2,
     name = ''Add meta descriptions'',
     completed = False,
     responsible = ''Frontend Developer'',
     description = ''Provides a summary of page content in search results. While not a direct ranking factor, well-crafted descriptions with keywords improve click-through rates, which indirectly affects rankings.''\<rparr>,
    \<lparr>task_id = 3,
     name = ''Structure header tags'',
     completed = False,
     responsible = ''Frontend Developer'',
     description = ''Creates a hierarchical structure for content (H1-H6). Helps search engines understand content organization and importance. H1 tags with target keywords significantly impact relevance for those keywords.''\<rparr>,
    \<lparr>task_id = 4,
     name = ''Optimize image alt attributes'',
     completed = False,
     responsible = ''Frontend Developer'',
     description = ''Provides text alternatives for images that search engines can read. Improves accessibility and helps pages rank in image search. Descriptive alt text with relevant keywords improves content relevance signals.''\<rparr>,
    \<lparr>task_id = 5,
     name = ''Implement schema markup'',
     completed = False,
     responsible = ''Frontend Developer'',
     description = ''Adds structured data that helps search engines understand content context. Enables rich snippets in search results (ratings, prices, etc.). Increases visibility and click-through rates with enhanced SERP listings.''\<rparr>,
    \<lparr>task_id = 6,
     name = ''Add canonical tags'',
     completed = False,
     responsible = ''Frontend Developer'',
     description = ''Tells search engines which version of duplicate or similar pages is the primary one. Prevents duplicate content penalties by consolidating ranking signals to the canonical URL. Essential for sites with parameter-based URLs or pagination.''\<rparr>]\<close>

definition default_internal :: "task list" where
  \<open>default_internal = [
    \<lparr>task_id = 1,
     name = ''Create navigation structure'',
     completed = False,
     responsible = ''Frontend Developer'',
     description = ''Provides clear pathways for users and search engines to find content. Improves crawlability and passes link equity to important pages. Well-structured navigation reduces bounce rates and improves user experience metrics.''\<rparr>,
    \<lparr>task_id = 2,
     name = ''Implement breadcrumbs'',
     completed = False,
     responsible = ''Frontend Developer'',
     description = ''Shows users their location within the site hierarchy. Improves navigation and reduces bounce rates. Can appear as rich snippets in search results, improving click-through rates and conveying site structure to search engines.''\<rparr>,
    \<lparr>task_id = 3,
     name = ''Add descriptive anchor text'',
     completed = False,
     responsible = ''Frontend Developer'',
     description = ''Uses relevant keywords in link text instead of generic phrases like "click here." Helps search engines understand what the linked page is about. Descriptive anchor text is a significant ranking factor for the linked page.''\<rparr>,
    \<lparr>task_id = 4,
     name = ''Fix orphaned pages'',
     completed = False,
     responsible = ''SEO Analyst'',
     description = ''Identifies and links to pages that have no internal links pointing to them. Improves crawlability and ensures all valuable content is discoverable. Prevents valuable content from being excluded from search indexes due to lack of internal links.''\<rparr>]\<close>

definition default_local :: "task list" where
  \<open>default_local = [
    \<lparr>task_id = 1,
     name = ''Implement local business schema'',
     completed = False,
     responsible = ''Frontend Developer'',
     description = ''Adds structured data specific to local businesses. Enables rich results with business information in search. Improves visibility in local searches and Google Maps with precise business details that search engines can understand.''\<rparr>,
    \<lparr>task_id = 2,
     name = ''Create store locator page'',
     completed = False,
     responsible = ''Frontend Developer'',
     description = ''Provides users with an interactive way to find physical locations. Improves user experience for location-based searches. Pages with location data help businesses rank higher in local search results.''\<rparr>,
    \<lparr>task_id = 3,
     name = ''Add embedded Google Maps'',
     completed = False,
     responsible = ''Frontend Developer'',
     description = ''Visually displays business location(s) for users. Improves user experience by providing interactive directions. Sends strong location signals to search engines, improving local search rankings and visibility in map results.''\<rparr>]\<close>

definition default_analytics :: "task list" where
  \<open>default_analytics = [
    \<lparr>task_id = 1,
     name = ''Install Google Analytics'',
     completed = False,
     responsible = ''Frontend Developer'',
     description = ''Tracks user behavior, traffic sources, and conversions. Provides data to make informed SEO decisions. Enables measurement of SEO campaign effectiveness and identification of high-performing content.''\<rparr>,
    \<lparr>task_id = 2,
     name = ''Set up Google Search Console'',
     completed = False,
     responsible = ''SEO Analyst'',
     description = (''Monitors site'' @ [CHR 0x27] @ ''s presence in Google search results. Identifies issues affecting search performance. Provides data on keywords driving traffic, click-through rates, and index coverage problems that need to be addressed.'')\<rparr>,
    \<lparr>task_id = 3,
     name = ''Configure event tracking'',
     completed = False,
     responsible = ''Frontend Developer'',
     description = ''Tracks specific user interactions like downloads or form submissions. Measures engagement beyond pageviews. Data helps identify which content elements drive user engagement and conversions to inform SEO strategy.''\<rparr>,
    \<lparr>task_id = 4,
     name = ''Set up performance monitoring'',
     completed = False,
     responsible = ''Frontend Developer'',
     description = ''Continuously tracks Core Web Vitals and other performance metrics. Alerts to issues affecting user experience and rankings. Essential for maintaining good performance scores that directly impact search rankings.''\<rparr>]\<close>

definition default_ongoing :: "task list" where
  \<open>default_ongoing = [
    \<lparr>task_id = 1,
     name = ''Create content update schedule'',
     completed = False,
     responsible = ''SEO Analyst'',
     description = ''Establishes a regular cadence for refreshing existing content. Fresh content signals site activity to search engines. Regular updates improve relevance and can trigger ranking reconsiderations for previously published content.''\<rparr>,
    \<lparr>task_id = 2,
     name = ''Set up automated testing'',
     completed = False,
     responsible = ''Frontend Developer'',
     description = ''Creates scripts to regularly check for SEO issues. Prevents regression when new features are deployed. Automated testing ensures consistent compliance with SEO best practices across all site updates.''\<rparr>,
    \<lparr>task_id = 3,
     name = ''Configure performance alerts'',
     completed = False,
     responsible = ''Frontend Developer'',
     description = ''Sets up notifications for sudden drops in page speed or other metrics. Enables quick response to performance issues. Prevents long-term ranking impacts from undetected performance degradation.''\<rparr>]\<close>

definition default_seo_analyst :: "task list" where
  \<open>default_seo_analyst = [
    \<lparr>task_id = 1,
     name = ''Conduct keyword research'',
     completed = False,
     responsible = ''SEO Analyst'',
     description = ''Identifies high-value search terms with optimal search volume and competition levels. Forms the foundation of all SEO efforts by determining target keywords. Directly impacts which terms the site can realistically rank for based on competition analysis.''\<rparr>,
    \<lparr>task_id = 2,
     name = ''Perform competitor analysis'',
     completed = False,
     responsible = ''SEO Analyst'',
     description = ''Identifies top-ranking competitors and analyzes their content, backlink profiles, and keyword strategies. Reveals content gaps and keyword opportunities. Provides benchmarks for performance and reveals strategies working in your specific industry.''\<rparr>,
    \<lparr>task_id = 3,
     name = ''Develop content strategy'',
     completed = False,
     responsible = ''SEO Analyst'',
     description = ''Creates a systematic plan for content creation based on keyword research and competitor analysis. Maps topics to user intent throughout the buying journey. Ensures all content serves a specific SEO purpose with measurable outcomes.''\<rparr>,
    \<lparr>task_id = 4,
     name = ''Define title tag specifications'',
     completed = False,
     responsible = ''SEO Analyst'',
     description = ''Creates detailed title tag templates with exact character limits, keyword placement, and brand positioning. Ensures consistency across similar page types. Provides specific instructions for developers to implement optimal title structures.''\<rparr>,
    \<lparr>task_id = 5,
     name = ''Provide meta description formats'',
     completed = False,
     responsible = ''SEO Analyst'',
     description = ''Develops meta description templates with optimal character counts, keyword inclusion, and compelling calls-to-action. Increases click-through rates from search results. Provides exact specifications for developers to implement.''\<rparr>,
    \<lparr>task_id = 6,
     name = ''Analyze search intent'',
     completed = False,
     responsible = ''SEO Analyst'',
     description = ''Determines whether users searching specific keywords have informational, navigational, commercial, or transactional intent. Ensures content matches user expectations. Directly impacts bounce rates, engagement metrics, and conversion rates.''\<rparr>,
    \<lparr>task_id = 7,
     name = ''Identify backlink opportunities'',
     completed = False,
     responsible = ''SEO Analyst'',
     description = ''Researches potential sources for quality backlinks such as industry directories, partner websites, and content placement opportunities. Improves domain authority. Builds the external link profile that directly impacts search rankings.''\<rparr>,
    \<lparr>task_id = 8,
     name = ''Monitor algorithm updates'',
     completed = False,
     responsible = ''SEO Analyst'',
     description = ''Tracks and analyzes search engine algorithm changes and their potential impact on rankings. Enables quick adaptations to strategy when needed. Prevents ranking drops by staying aligned with evolving search engine requirements.''\<rparr>,
    \<lparr>task_id = 9,
     name = ''Analyze ranking positions'',
     completed = False,
     responsible = ''SEO Analyst'',
     description = ''Tracks keyword ranking positions across search engines and identifies trends and opportunities. Measures effectiveness of SEO efforts over time. Provides data to justify continued investment in specific SEO initiatives.''\<rparr>,
    \<lparr>task_id = 10,
     name = ''Conduct content gap analysis'',
     completed = False,
     responsible = ''SEO Analyst'',
     description = (''Identifies topics and keywords that competitors rank for but your site doesn'' @ [CHR 0x27] @ ''t address. Reveals untapped content opportunities with existing search demand. Provides direction for content creation that can quickly capture uncontested rankings.'')\<rparr>,
    \<lparr>task_id = 11,
     name = ''Optimize for featured snippets'',
     completed = False,
     responsible = ''SEO Analyst'',
     description = ''Structures content to specifically target featured snippet positions at the top of search results. Dramatically increases visibility and click-through rates. Requires specific content formatting that developers need to implement.''\<rparr>,
    \<lparr>task_id = 12,
     name = ''Create schema markup strategy'',
     completed = False,
     responsible = ''SEO Analyst'',
     description = ''Determines which schema.org structured data types are most relevant for each page type. Enables rich snippets in search results. Provides exact specifications for developers to implement the appropriate JSON-LD markup.''\<rparr>]\<close>

definition default_backlinks :: "task list" where
  \<open>default_backlinks = [
    \<lparr>task_id = 1,
     name = ''Conduct backlink audit'',
     completed = False,
     responsible = ''SEO Analyst'',
     description = ''Analyzes existing backlink profile to identify toxic links, opportunities for improvement, and current strengths. Helps avoid Google penalties. Establishes baseline metrics for future link building activities.''\<rparr>,
    \<lparr>task_id = 2,
     name = ''Create link building strategy'',
     completed = False,
     responsible = ''SEO Analyst'',
     description = ''Develops a comprehensive plan for acquiring high-quality backlinks from relevant sources. Improves domain authority and search rankings. Sets priorities based on competitor analysis and keyword difficulty.''\<rparr>,
    \<lparr>task_id = 3,
     name = ''Develop guest posting plan'',
     completed = False,
     responsible = ''SEO Analyst'',
     description = ''Identifies high-authority sites in your industry that accept guest posts and creates outreach templates. Builds relevant, high-quality backlinks. Establishes thought leadership and drives referral traffic.''\<rparr>,
    \<lparr>task_id = 4,
     name = ''Create shareable content assets'',
     completed = False,
     responsible = ''SEO Analyst'',
     description = ''Develops content specifically designed to attract natural backlinks such as original research, infographics, or tools. Generates organic link acquisition. Creates resources industry websites want to reference and link to.''\<rparr>,
    \<lparr>task_id = 5,
     name = ''Submit to industry directories'',
     completed = False,
     responsible = ''SEO Analyst'',
     description = ''Identifies and submits site to relevant, high-quality industry directories and association websites. Builds foundational backlinks from trusted sources. Improves local and industry-specific relevance signals.''\<rparr>,
    \<lparr>task_id = 6,
     name = ''Perform broken link building'',
     completed = False,
     responsible = ''SEO Analyst'',
     description = ''Finds broken links on external sites and offers your content as a replacement. Leverages existing link opportunities. Provides immediate value to site owners while gaining valuable backlinks.''\<rparr>,
    \<lparr>task_id = 7,
     name = ''Monitor brand mentions'',
     completed = False,
     responsible = ''SEO Analyst'',
     description = ''Tracks unlinked mentions of your brand across the web and reaches out to convert them to backlinks. Capitalizes on existing brand awareness. Turns already-existing mentions into valuable ranking signals.''\<rparr>,
    \<lparr>task_id = 8,
     name = ''Analyze competitor backlinks'',
     completed = False,
     responsible = ''SEO Analyst'',
     description = ''Identifies sites linking to competitors but not to you and creates outreach strategies. Leverages proven link opportunities. Targets sites already interested in your industry or niche.''\<rparr>,
    \<lparr>task_id = 9,
     name = ''Disavow toxic backlinks'',
     completed = False,
     responsible = ''SEO Analyst'',
     description = ''Identifies and disavows harmful backlinks that could trigger Google penalties. Protects site from negative SEO and algorithmic penalties. Maintains a clean backlink profile focused on quality rather than quantity.''\<rparr>,
    \<lparr>task_id = 10,
     name = ''Track backlink acquisition'',
     completed = False,
     responsible = ''SEO Analyst'',
     description = ''Monitors new and lost backlinks and measures their impact on rankings and organic traffic. Quantifies link building effectiveness. Provides data to refine strategy and focus on most effective tactics.''\<rparr>]\<close>

definition getDefaultTasks :: "tasks_state" where
  "getDefaultTasks = [
    (''indiancashback'', default_indiancashback),
    (''india_specific'', default_india_specific),
    (''indiancashback_backlinks'', default_indiancashback_backlinks),
    (''indiancashback_technical'', default_indiancashback_technical),
    (''technical'', default_technical),
    (''content'', default_content),
    (''internal'', default_internal),
    (''local'', default_local),
    (''analytics'', default_analytics),
    (''ongoing'', default_ongoing),
    (''seo_analyst'', default_seo_analyst),
    (''backlinks'', default_backlinks)]"

section \<open>The Redis store and the environment\<close>

text \<open>
  The four keys of the store, each holding a whole JSON document or nothing; \<open>None\<close> is
  an absent key. \<open>faults\<close> is the schedule of the storage backend: every call of
  \<^verbatim>\<open>redis.exists\<close>, \<^verbatim>\<open>redis.get\<close> or \<^verbatim>\<open>redis.set\<close> takes the head of the list and
  raises when it is \<open>True\<close>; an exhausted schedule means that every further call
  succeeds. A call that raises leaves the store as it was. \<open>clock\<close> is what
  \<^verbatim>\<open>Date.now()\<close> and \<^verbatim>\<open>new Date()\<close> read. Console output is not modelled.
\<close>

record env =
  tasks_key :: "tasks_state option"
  activity_log_key :: "log_entry list option"
  seo_score_key :: "json option"
  integration_status_key :: "json option"
  faults :: "bool list"
  clock :: int

type_synonym 'a action = "env \<Rightarrow> (error + 'a) \<times> env"

definition ret :: "'a \<Rightarrow> 'a action" where
  "ret x w = (Inr x, w)"

definition throw :: "error \<Rightarrow> 'a action" where
  "throw e w = (Inl e, w)"

definition bind :: "'a action \<Rightarrow> ('a \<Rightarrow> 'b action) \<Rightarrow> 'b action" where
  "bind m k w = (case m w of (Inl e, w') \<Rightarrow> (Inl e, w') | (Inr x, w') \<Rightarrow> k x w')"

definition try_catch :: "'a action \<Rightarrow> (error \<Rightarrow> 'a action) \<Rightarrow> 'a action" where
  "try_catch m h w = (case m w of (Inl e, w') \<Rightarrow> h e w' | (Inr x, w') \<Rightarrow> (Inr x, w'))"

definition next_call_raises :: "env \<Rightarrow> bool" where
  "next_call_raises w = (case faults w of [] \<Rightarrow> False | f # _ \<Rightarrow> f)"

definition storage_call :: "(env \<Rightarrow> 'a \<times> env) \<Rightarrow> 'a action" where
  "storage_call operation w =
     (let w' = w\<lparr>faults := tl (faults w)\<rparr>
      in if next_call_raises w then (Inl StorageError, w')
         else (case operation w' of (x, w'') \<Rightarrow> (Inr x, w'')))"

definition redis_exists_TASKS_KEY :: "bool action" where
  "redis_exists_TASKS_KEY = storage_call (\<lambda>w. (tasks_key w \<noteq> None, w))"

definition redis_get_TASKS_KEY :: "tasks_state option action" where
  "redis_get_TASKS_KEY = storage_call (\<lambda>w. (tasks_key w, w))"

definition redis_set_TASKS_KEY :: "tasks_state \<Rightarrow> unit action" where
  "redis_set_TASKS_KEY v = storage_call (\<lambda>w. ((), w\<lparr>tasks_key := Some v\<rparr>))"

definition redis_get_ACTIVITY_LOG_KEY :: "log_entry list option action" where
  "redis_get_ACTIVITY_LOG_KEY = storage_call (\<lambda>w. (activity_log_key w, w))"

definition redis_set_ACTIVITY_LOG_KEY :: "log_entry list \<Rightarrow> unit action" where
  "redis_set_ACTIVITY_LOG_KEY v = storage_call (\<lambda>w. ((), w\<lparr>activity_log_key := Some v\<rparr>))"

definition redis_set_SEO_SCORE_KEY :: "json \<Rightarrow> unit action" where
  "redis_set_SEO_SCORE_KEY v = storage_call (\<lambda>w. ((), w\<lparr>seo_score_key := Some v\<rparr>))"

definition redis_set_INTEGRATION_STATUS_KEY :: "json \<Rightarrow> unit action" where
  "redis_set_INTEGRATION_STATUS_KEY v =
     storage_call (\<lambda>w. ((), w\<lparr>integration_status_key := Some v\<rparr>))"

definition Date_now :: "int action" where
  "Date_now w = (Inr (clock w), w)"

section \<open>Task repository and activity log\<close>

definition seed_activity_log :: "int \<Rightarrow> log_entry list" where
  "seed_activity_log now =
     [SeedLogEntry 1 now ''SYSTEM_INIT'' ''SEO Dashboard initialized with default tasks''
        ''System'']"

definition seed_seo_score :: "int \<Rightarrow> json" where
  "seed_seo_score now =
     JObject [(''overall'', JNumber 55), (''technical'', JNumber 40),
              (''content'', JNumber 60), (''backlinks'', JNumber 45),
              (''performance'', JNumber 65), (''lastUpdated'', JDate now)]"

definition integration_disconnected :: json where
  "integration_disconnected = JObject [(''connected'', JBool False), (''lastSync'', JNull)]"

definition seed_integration_status :: json where
  "seed_integration_status =
     JObject [(''googleSearchConsole'', integration_disconnected),
              (''googleAnalytics'', integration_disconnected),
              (''ahrefs'', integration_disconnected),
              (''semrush'', integration_disconnected),
              (''screaming_frog'', integration_disconnected)]"

text \<open>\<^verbatim>\<open>initializeRedisData\<close> catches every error of its body and returns normally.\<close>

definition initializeRedisData :: "unit action" where
  "initializeRedisData =
     try_catch
       (bind redis_exists_TASKS_KEY (\<lambda>tasksExist.
          if \<not> tasksExist then
            bind (redis_set_TASKS_KEY getDefaultTasks) (\<lambda>_.
            bind Date_now (\<lambda>now1.
            bind (redis_set_ACTIVITY_LOG_KEY (seed_activity_log now1)) (\<lambda>_.
            bind Date_now (\<lambda>now2.
            bind (redis_set_SEO_SCORE_KEY (seed_seo_score now2)) (\<lambda>_.
            redis_set_INTEGRATION_STATUS_KEY seed_integration_status)))))
          else ret ()))
       (\<lambda>error. ret ())"

text \<open>\<^verbatim>\<open>getTasks\<close>: \<^verbatim>\<open>tasks || getDefaultTasks()\<close> replaces the \<^verbatim>\<open>null\<close> of an absent
  key.\<close>

definition getTasks :: "tasks_state action" where
  "getTasks =
     try_catch
       (bind initializeRedisData (\<lambda>_.
        bind redis_get_TASKS_KEY (\<lambda>tasks.
        ret (case tasks of Some t \<Rightarrow> t | None \<Rightarrow> getDefaultTasks))))
       (\<lambda>error. ret getDefaultTasks)"

definition getActivityLog :: "log_entry list action" where
  "getActivityLog =
     try_catch
       (bind initializeRedisData (\<lambda>_.
        bind redis_get_ACTIVITY_LOG_KEY (\<lambda>log.
        ret (case log of Some l \<Rightarrow> l | None \<Rightarrow> []))))
       (\<lambda>error. ret [])"

text \<open>\<^verbatim>\<open>addActivityLog\<close>: \<^verbatim>\<open>[newEntry, ...log.slice(0, 19)]\<close>.\<close>

definition addActivityLog :: "string \<Rightarrow> string \<Rightarrow> unit action" where
  "addActivityLog action description' =
     try_catch
       (bind getActivityLog (\<lambda>log.
        bind Date_now (\<lambda>now.
        let newEntry = ActivityLogEntry action description' now
        in redis_set_ACTIVITY_LOG_KEY (newEntry # take 19 log))))
       (\<lambda>error. ret ())"

text \<open>The function mapped over the category by \<^verbatim>\<open>toggleTaskCompletion\<close>:
  \<^verbatim>\<open>task.id === taskId ? { ...task, completed: !task.completed } : task\<close>.\<close>

definition toggle :: "int \<Rightarrow> task \<Rightarrow> task" where
  "toggle taskId t = (if task_id t = taskId then t\<lparr>completed := \<not> completed t\<rparr> else t)"

text \<open>
  \<^verbatim>\<open>toggleTaskCompletion\<close>. \<^verbatim>\<open>tasks[category]?.find(...)\<close> is \<^verbatim>\<open>undefined\<close> for an
  unknown category and throws a \<^verbatim>\<open>TypeError\<close> on a prototype member, which has no
  \<^verbatim>\<open>find\<close>. The spread \<^verbatim>\<open>{...tasks, [category]: ...}\<close> replaces the value of the own
  property \<open>category\<close> in place; the \<^verbatim>\<open>|| []\<close> alternative is never taken once the task
  was found. Every error is caught and replaced by
  \<^verbatim>\<open>Error('Failed to update task status')\<close>; writes made before it stay.
\<close>

definition toggleTaskCompletion :: "string \<Rightarrow> int \<Rightarrow> tasks_state action" where
  "toggleTaskCompletion category taskId =
     try_catch
       (bind getTasks (\<lambda>tasks.
          case get_property tasks category of
            Undefined \<Rightarrow> throw (TaskNotFound category taskId)
          | PrototypeMember \<Rightarrow> throw TypeError
          | TaskArray ts \<Rightarrow>
              (case find (\<lambda>t. task_id t = taskId) ts of
                 None \<Rightarrow> throw (TaskNotFound category taskId)
               | Some task \<Rightarrow>
                   (let updatedTasks = AList.update category (map (toggle taskId) ts) tasks
                    in bind (redis_set_TASKS_KEY updatedTasks) (\<lambda>_.
                       let newStatus = \<not> completed task
                       in bind (addActivityLog
                                  (if newStatus then ''TASK_COMPLETED'' else ''TASK_REOPENED'')
                                  ((if newStatus then ''Completed'' else ''Reopened'')
                                     @ '' task: '' @ name task @ '' in '' @ category))
                            (\<lambda>_. ret updatedTasks))))))
       (\<lambda>error. throw FailedToUpdateTaskStatus)"

section \<open>The store after seeding\<close>

text \<open>What the four \<^verbatim>\<open>redis.set\<close> calls of \<^verbatim>\<open>initializeRedisData\<close> leave behind when
  none of them raises.\<close>

definition seeded :: "env \<Rightarrow> env" where
  "seeded w =
     w\<lparr>tasks_key := Some getDefaultTasks,
       activity_log_key := Some (seed_activity_log (clock w)),
       seo_score_key := Some (seed_seo_score (clock w)),
       integration_status_key := Some seed_integration_status\<rparr>"

text \<open>The stored activity log as \<^verbatim>\<open>getActivityLog\<close> reads it: an absent key is the
  empty log.\<close>

definition log_of :: "env \<Rightarrow> log_entry list" where
  "log_of w = (case activity_log_key w of None \<Rightarrow> [] | Some l \<Rightarrow> l)"

text \<open>The entry that \<^verbatim>\<open>toggleTaskCompletion\<close> passes to \<^verbatim>\<open>addActivityLog\<close> for the task
  it found, stamped by \<^verbatim>\<open>Date.now()\<close>.\<close>

definition toggle_entry :: "string \<Rightarrow> task \<Rightarrow> int \<Rightarrow> log_entry" where
  "toggle_entry category task now =
     (let newStatus = \<not> completed task
      in ActivityLogEntry
           (if newStatus then ''TASK_COMPLETED'' else ''TASK_REOPENED'')
           ((if newStatus then ''Completed'' else ''Reopened'')
              @ '' task: '' @ name task @ '' in '' @ category)
           now)"

text \<open>A sequence of \<^verbatim>\<open>addActivityLog\<close> calls; each call comes with the clock reading
  and the fault schedule of the backend at that moment.\<close>

fun addActivityLog_sequence :: "(string \<times> string \<times> int \<times> bool list) list \<Rightarrow> env \<Rightarrow> env" where
  "addActivityLog_sequence [] w = w"
| "addActivityLog_sequence ((a, d, now, fs) # calls) w =
     addActivityLog_sequence calls (snd (addActivityLog a d (w\<lparr>clock := now, faults := fs\<rparr>)))"

section \<open>Sample documents\<close>

definition sample_task :: "int \<Rightarrow> bool \<Rightarrow> task" where
  "sample_task i c =
     \<lparr>task_id = i, name = ''Fix broken links'', completed = c,
      responsible = ''Frontend Developer'', description = ''''\<rparr>"

definition category_23_of_40 :: "task list" where
  "category_23_of_40 = map (\<lambda>i. sample_task i (i \<le> 23)) [1..40]"

definition document_23_of_40 :: tasks_state where
  "document_23_of_40 = [(''technical'', category_23_of_40)]"

definition document_overall_23_of_40 :: tasks_state where
  "document_overall_23_of_40 =
     [(''technical'', map (\<lambda>i. sample_task i (i \<le> 13)) [1..30]),
      (''content'', map (\<lambda>i. sample_task i True) [1..10])]"

definition document_8_and_2 :: tasks_state where
  "document_8_and_2 =
     [(''A'', map (\<lambda>i. sample_task i False) [1..8]),
      (''B'', map (\<lambda>i. sample_task i True) [1..2])]"

definition fresh_env :: env where
  "fresh_env =
     \<lparr>tasks_key = None, activity_log_key = None, seo_score_key = None,
      integration_status_key = None, faults = [], clock = 0\<rparr>"

definition env_8_and_2 :: env where
  "env_8_and_2 = fresh_env\<lparr>tasks_key := Some document_8_and_2\<rparr>"

definition log_20 :: "log_entry list" where
  "log_20 = map (\<lambda>i. ActivityLogEntry ''TASK_COMPLETED'' ''Completed task: t in A'' (20 - i)) [0..19]"

definition env_log_20 :: env where
  "env_log_20 = env_8_and_2\<lparr>activity_log_key := Some log_20\<rparr>"

text \<open>Twenty appends on a fresh store during each of which \<^verbatim>\<open>redis.exists\<close> raises (and
  nothing else does), at the clock readings 1 to 20.\<close>

definition exists_raising_appends :: "(string \<times> string \<times> int \<times> bool list) list" where
  "exists_raising_appends =
     map (\<lambda>i. (''TASK_COMPLETED'', ''Completed task: t in A'', i, [True])) [1..20]"

definition env_log_without_catalog :: env where
  "env_log_without_catalog = addActivityLog_sequence exists_raising_appends fresh_env"


section \<open>Double arithmetic: bounds and rounding error\<close>

declare bits.simps [simp del]

lemma bits_bounds: "0 < n \<Longrightarrow> 2 ^ bits n \<le> 2 * n \<and> n < 2 ^ bits n"
proof (induction n rule: bits.induct)
  case (1 n)
  show ?case
  proof (cases "n = 1")
    case True
    then show ?thesis by (simp add: bits.simps)
  next
    case False
    with "1.prems" have pos: "0 < n div 2" by simp
    have ih: "2 ^ bits (n div 2) \<le> 2 * (n div 2) \<and> n div 2 < 2 ^ bits (n div 2)"
      using "1.IH" "1.prems" pos by simp
    have b: "bits n = Suc (bits (n div 2))"
      using "1.prems" by (simp add: bits.simps)
    from ih show ?thesis
      unfolding b by (simp, linarith)
  qed
qed

lemma pow2_powi: "pow2 e = 2 powi e"
  by (simp add: pow2_def power_int_def field_simps)

lemma pow2_pos: "0 < pow2 e"
  by (simp add: pow2_powi)

lemma pow2_add: "pow2 (a + b) = pow2 a * pow2 b"
  by (simp add: pow2_powi power_int_add)

lemma pow2_mono: "a \<le> b \<Longrightarrow> pow2 a \<le> pow2 b"
  by (simp add: pow2_powi power_int_increasing)

lemma pow2_less_iff: "pow2 a < pow2 b \<longleftrightarrow> a < b"
proof
  assume l: "pow2 a < pow2 b"
  show "a < b"
  proof (rule ccontr)
    assume "\<not> a < b"
    then have "pow2 b \<le> pow2 a" by (simp add: pow2_mono)
    with l show False by simp
  qed
next
  assume "a < b"
  then show "pow2 a < pow2 b"
    by (simp add: pow2_powi power_int_strict_increasing)
qed

lemma pow2_le_iff: "pow2 a \<le> pow2 b \<longleftrightarrow> a \<le> b"
  using pow2_less_iff [of b a] by (simp add: not_less [symmetric])

lemma pow2_nat: "pow2 (int n) = 2 ^ n"
  by (simp add: pow2_powi)

lemma floor_log2_bounds:
  assumes "0 < x"
  shows "pow2 (floor_log2 x) \<le> x \<and> x < pow2 (floor_log2 x + 1)"
proof -
  obtain p q where pq: "quotient_of x = (p, q)"
    by (cases "quotient_of x") auto
  then have q: "0 < q" and x: "x = of_int p / of_int q"
    by (simp_all add: quotient_of_denom_pos quotient_of_div)
  with assms have p: "0 < p"
    by (simp add: zero_less_divide_iff)
  define d where "d = int (bits p) - int (bits q)"
  have bp: "2 ^ bits p \<le> 2 * p" "p < 2 ^ bits p"
    using bits_bounds [OF p] by simp_all
  have bq: "2 ^ bits q \<le> 2 * q" "q < 2 ^ bits q"
    using bits_bounds [OF q] by simp_all
  have xq: "x * of_int q = of_int p"
    using q x by simp
  have rp: "(2::rat) ^ bits p \<le> 2 * of_int p" "of_int p < (2::rat) ^ bits p"
    using bp by (metis of_int_le_iff of_int_numeral of_int_power of_int_mult,
        metis of_int_less_iff of_int_numeral of_int_power)
  have rq: "(2::rat) ^ bits q \<le> 2 * of_int q" "of_int q < (2::rat) ^ bits q"
    using bq by (metis of_int_le_iff of_int_numeral of_int_power of_int_mult,
        metis of_int_less_iff of_int_numeral of_int_power)
  have up: "x < pow2 (d + 1)"
  proof -
    have "x * 2 ^ bits q \<le> x * (2 * of_int q)"
      using rq(1) assms by (simp add: mult_left_mono)
    also have "\<dots> = 2 * of_int p"
      using xq by simp
    also have "\<dots> < 2 * 2 ^ bits p"
      using rp(2) by simp
    finally have "x < 2 * 2 ^ bits p / 2 ^ bits q"
      by (simp add: field_simps)
    also have "\<dots> = pow2 (d + 1)"
      by (simp add: d_def pow2_powi power_int_add power_int_diff)
    finally show ?thesis .
  qed
  have lo: "pow2 (d - 1) < x"
  proof -
    have "(2::rat) ^ bits p \<le> 2 * of_int p"
      by (rule rp(1))
    also have "\<dots> = 2 * (x * of_int q)"
      using xq by simp
    also have "\<dots> < 2 * (x * 2 ^ bits q)"
      using rq(2) assms by simp
    finally have "2 ^ bits p / 2 ^ bits q / 2 < x"
      by (simp add: field_simps)
    moreover have "2 ^ bits p / 2 ^ bits q / 2 = pow2 (d - 1)"
      by (simp add: d_def pow2_powi power_int_add power_int_diff)
    ultimately show ?thesis by simp
  qed
  show ?thesis
    using up lo pq by (auto simp add: floor_log2_def d_def Let_def)
qed


lemma round_half_even_error: "\<bar>of_int (round_half_even y) - y\<bar> \<le> 1 / 2"
proof -
  define r where "r = y - of_int \<lfloor>y\<rfloor>"
  have r: "0 \<le> r" "r < 1"
    unfolding r_def by linarith+
  have y: "y = of_int \<lfloor>y\<rfloor> + r"
    by (simp add: r_def)
  consider "r < 1 / 2" | "1 / 2 < r" | "r = 1 / 2"
    by linarith
  then show ?thesis
  proof cases
    case 1
    then have "round_half_even y = \<lfloor>y\<rfloor>"
      by (simp add: round_half_even_def Let_def r_def)
    then have "of_int (round_half_even y) - y = - r"
      by (simp add: r_def)
    then show ?thesis
      using r 1 by simp
  next
    case 2
    then have "round_half_even y = \<lfloor>y\<rfloor> + 1"
      by (simp add: round_half_even_def Let_def r_def)
    then have "of_int (round_half_even y) - y = 1 - r"
      by (simp add: r_def)
    then show ?thesis
      using r 2 by simp
  next
    case 3
    then have "round_half_even y = \<lfloor>y\<rfloor> \<or> round_half_even y = \<lfloor>y\<rfloor> + 1"
      by (simp add: round_half_even_def Let_def r_def)
    then have "of_int (round_half_even y) - y = - r \<or> of_int (round_half_even y) - y = 1 - r"
      by (auto simp add: r_def)
    then show ?thesis
      using 3 by auto
  qed
qed

lemma round_half_even_le: "y \<le> of_int n \<Longrightarrow> round_half_even y \<le> n"
proof -
  assume a: "y \<le> of_int n"
  have e: "\<bar>of_int (round_half_even y) - y\<bar> \<le> 1 / 2"
    by (rule round_half_even_error)
  then have "(of_int (round_half_even y) :: rat) \<le> of_int n + 1 / 2"
    using a by linarith
  then have "(of_int (round_half_even y) :: rat) < of_int (n + 1)"
    by simp
  then show ?thesis
    by linarith
qed

lemma round_half_even_ge: "of_int n \<le> y \<Longrightarrow> n \<le> round_half_even y"
proof -
  assume a: "of_int n \<le> y"
  have e: "\<bar>of_int (round_half_even y) - y\<bar> \<le> 1 / 2"
    by (rule round_half_even_error)
  then have "(of_int n :: rat) - 1 / 2 \<le> of_int (round_half_even y)"
    using a by linarith
  then have "(of_int (n - 1) :: rat) < of_int (round_half_even y)"
    by simp
  then show ?thesis
    by linarith
qed

lemma fl_pos_eq:
  "0 < x \<Longrightarrow>
   fl x = of_int (round_half_even (x / pow2 (floor_log2 x - 52))) * pow2 (floor_log2 x - 52)"
  by (simp add: fl_def Let_def)

lemma fl_error:
  assumes "0 < x"
  shows "\<bar>fl x - x\<bar> \<le> x / 2 ^ 53"
proof -
  let ?e = "floor_log2 x - 52"
  let ?s = "x / pow2 ?e"
  have p: "0 < pow2 ?e"
    by (rule pow2_pos)
  have "fl x - x = (of_int (round_half_even ?s) - ?s) * pow2 ?e"
    using p by (simp add: fl_pos_eq [OF assms] field_simps)
  then have "\<bar>fl x - x\<bar> = \<bar>of_int (round_half_even ?s) - ?s\<bar> * pow2 ?e"
    using p by (simp add: abs_mult)
  also have "\<dots> \<le> 1 / 2 * pow2 ?e"
    using p round_half_even_error [of ?s] by (intro mult_right_mono) simp_all
  also have "\<dots> = pow2 (floor_log2 x) / 2 ^ 53"
    by (simp add: pow2_powi power_int_diff)
  also have "\<dots> \<le> x / 2 ^ 53"
    using floor_log2_bounds [OF assms] by (simp add: divide_right_mono)
  finally show ?thesis .
qed

lemma fl_nonneg: "0 \<le> x \<Longrightarrow> 0 \<le> fl x"
proof (cases "x = 0")
  case True
  then show ?thesis by (simp add: fl_def)
next
  case False
  assume "0 \<le> x"
  with False have x: "0 < x" by simp
  have "(of_int 0 :: rat) \<le> x / pow2 (floor_log2 x - 52)"
    using x pow2_pos [of "floor_log2 x - 52"] by simp
  then have "0 \<le> round_half_even (x / pow2 (floor_log2 x - 52))"
    by (rule round_half_even_ge)
  then show ?thesis
    using pow2_pos [of "floor_log2 x - 52"] by (simp add: fl_pos_eq [OF x])
qed

lemma fl_le_int:
  assumes "0 < x" and "x \<le> of_int B" and "x < 2 ^ 53"
  shows "fl x \<le> of_int B"
proof -
  let ?e = "floor_log2 x - 52"
  have "pow2 (floor_log2 x) < pow2 53"
    using floor_log2_bounds [OF assms(1)] assms(3) by (simp add: pow2_powi)
  then have e: "?e \<le> 0"
    by (simp add: pow2_less_iff)
  have p: "0 < pow2 ?e"
    by (rule pow2_pos)
  have i: "1 / pow2 ?e = of_int (2 ^ nat (- ?e))"
    using e by (simp add: pow2_def)
  have "x / pow2 ?e \<le> of_int B / pow2 ?e"
    using assms(2) p by (simp add: divide_right_mono)
  also have "\<dots> = of_int B * (1 / pow2 ?e)"
    by simp
  also have "\<dots> = of_int (B * 2 ^ nat (- ?e))"
    unfolding i by simp
  finally have "round_half_even (x / pow2 ?e) \<le> B * 2 ^ nat (- ?e)"
    by (rule round_half_even_le)
  then have "(of_int (round_half_even (x / pow2 ?e)) :: rat) \<le> of_int (B * 2 ^ nat (- ?e))"
    by (simp only: of_int_le_iff)
  then have "fl x \<le> of_int (B * 2 ^ nat (- ?e)) * pow2 ?e"
    using p by (simp add: fl_pos_eq [OF assms(1)] mult_right_mono)
  also have "\<dots> = of_int B * (1 / pow2 ?e) * pow2 ?e"
    unfolding i by simp
  also have "\<dots> = of_int B"
    using p by simp
  finally show ?thesis .
qed


lemma fl_le_1: "0 \<le> x \<Longrightarrow> x \<le> 1 \<Longrightarrow> fl x \<le> 1"
  using fl_le_int [of x 1] by (cases "x = 0") (simp_all add: fl_def)

lemma fl_le_100: "0 \<le> x \<Longrightarrow> x \<le> 100 \<Longrightarrow> fl x \<le> 100"
  using fl_le_int [of x 100] by (cases "x = 0") (simp_all add: fl_def)

lemma percentage_eq:
  "0 < N \<Longrightarrow> percentage K N = \<lfloor>fl (fl (of_nat K / of_nat N) * 100) + 1 / 2\<rfloor>"
  by (simp add: percentage_def Math_round_def js_mul_def js_div_def)

lemma percentage_range:
  assumes "K \<le> N"
  shows "0 \<le> percentage K N \<and> percentage K N \<le> 100"
proof (cases "N = 0")
  case True
  then show ?thesis by (simp add: percentage_def)
next
  case False
  then have N: "0 < N" by simp
  let ?x = "of_nat K / of_nat N :: rat"
  have x: "0 \<le> ?x" "?x \<le> 1"
    using assms N by simp_all
  have a: "0 \<le> fl ?x" "fl ?x \<le> 1"
    using x by (simp_all add: fl_nonneg fl_le_1)
  then have b: "0 \<le> fl (fl ?x * 100)" "fl (fl ?x * 100) \<le> 100"
    by (simp_all add: fl_nonneg fl_le_100)
  have "0 \<le> \<lfloor>fl (fl ?x * 100) + 1 / 2\<rfloor>"
    using b(1) by simp
  moreover have "\<lfloor>fl (fl ?x * 100) + 1 / 2\<rfloor> \<le> 100"
    using b(2) by (simp add: floor_le_iff)
  ultimately show ?thesis
    by (simp add: percentage_eq [OF N])
qed

lemma double_product_error:
  assumes "0 < x" and "x \<le> 1"
  shows "\<bar>fl (fl x * 100) - 100 * x\<bar> \<le> 200 / 2 ^ 53"
proof -
  have e1: "\<bar>fl x - x\<bar> \<le> x / 2 ^ 53"
    using assms(1) by (rule fl_error)
  have "x / 2 ^ 53 < x"
    using assms(1) by simp
  with e1 have a0: "0 < fl x"
    by linarith
  have a1: "fl x \<le> 1"
    using assms by (simp add: fl_le_1)
  have y0: "0 < fl x * 100"
    using a0 by simp
  have e2: "\<bar>fl (fl x * 100) - fl x * 100\<bar> \<le> fl x * 100 / 2 ^ 53"
    using y0 by (rule fl_error)
  have "fl x * 100 / 2 ^ 53 \<le> 100 / 2 ^ 53"
    using a1 by (simp add: divide_right_mono)
  with e2 have e2': "\<bar>fl (fl x * 100) - fl x * 100\<bar> \<le> 100 / 2 ^ 53"
    by linarith
  have "x / 2 ^ 53 \<le> 1 / 2 ^ 53"
    using assms(2) by (simp add: divide_right_mono)
  with e1 have e1': "\<bar>fl x - x\<bar> \<le> 1 / 2 ^ 53"
    by linarith
  define c where "c = (1::rat) / 2 ^ 53"
  have "\<bar>fl x - x\<bar> \<le> c" "\<bar>fl (fl x * 100) - fl x * 100\<bar> \<le> 100 * c"
    using e1' e2' by (simp_all add: c_def)
  then have "\<bar>fl (fl x * 100) - 100 * x\<bar> \<le> 200 * c"
    by linarith
  then show ?thesis
    by (simp add: c_def)
qed


lemma Math_round_exact:
  "0 < N \<Longrightarrow> Math_round (100 * of_nat K / of_nat N) = (200 * int K + int N) div (2 * int N)"
proof -
  assume N: "0 < N"
  have "100 * of_nat K / of_nat N + 1 / 2 = (of_int (200 * int K + int N) :: rat) / of_int (2 * int N)"
    using N by (simp add: field_simps)
  then show ?thesis
    unfolding Math_round_def by (simp only: floor_divide_of_int_eq)
qed

theorem percentage_spec:
  assumes "0 < N" and "K \<le> N" and "N < 2 ^ 32"
  shows "percentage K N = (200 * int K + int N) div (2 * int N)
       \<or> (200 * K + N) mod (2 * N) = 0
          \<and> percentage K N = (200 * int K + int N) div (2 * int N) - 1"
proof -
  define m where "m = (200 * int K + int N) div (2 * int N)"
  define r where "r = (200 * int K + int N) mod (2 * int N)"
  define x where "x = (of_nat K / of_nat N :: rat)"
  define b where "b = fl (fl x * 100)"
  define c where "c = (1 :: rat) / (2 * of_nat N)"
  have r: "0 \<le> r" "r < 2 * int N"
    using assms(1) by (simp_all add: r_def)
  have mr: "200 * int K + int N = 2 * int N * m + r"
    by (simp add: m_def r_def)
  have x: "0 \<le> x" "x \<le> 1"
    using assms by (simp_all add: x_def)
  have c: "0 < c"
    using assms(1) by (simp add: c_def)
  have "(of_int (200 * int K + int N) :: rat) = of_int (2 * int N * m + r)"
    by (simp only: mr)
  then have "(200 * of_nat K + of_nat N :: rat) = 2 * of_nat N * of_int m + of_int r"
    by simp
  then have t: "100 * x + 1 / 2 = of_int m + of_int r * c"
    using assms(1) by (simp add: x_def c_def field_simps)
  have err: "\<bar>b - 100 * x\<bar> \<le> 200 / 2 ^ 53"
  proof (cases "K = 0")
    case True
    then show ?thesis by (simp add: b_def x_def fl_def)
  next
    case False
    then have "0 < x" using assms(1) by (simp add: x_def)
    then show ?thesis
      unfolding b_def using x(2) by (rule double_product_error)
  qed
  have "(of_nat N :: rat) < 2 ^ 32"
    using assms(3) by (metis of_nat_less_iff of_nat_numeral of_nat_power)
  then have "200 / 2 ^ 53 * (2 * of_nat N :: rat) < 1"
    by simp
  then have small: "200 / 2 ^ 53 < c"
    using assms(1) by (simp add: c_def field_simps)
  have p: "percentage K N = \<lfloor>b + 1 / 2\<rfloor>"
    using assms(1) by (simp add: percentage_eq b_def x_def)
  have c1: "2 * of_nat N * c = 1" "c \<le> 1 / 2"
    using assms(1) by (simp_all add: c_def field_simps)
  show ?thesis
  proof (cases "r = 0")
    case True
    with t have "100 * x + 1 / 2 = of_int m"
      by simp
    with err small c1(2) have bounds: "of_int m - 1 < b + 1 / 2" "b + 1 / 2 < of_int m + 1"
      by linarith+
    have "\<lfloor>b + 1 / 2\<rfloor> = m \<or> \<lfloor>b + 1 / 2\<rfloor> = m - 1"
    proof (cases "of_int m \<le> b + 1 / 2")
      case True
      then have "\<lfloor>b + 1 / 2\<rfloor> = m"
        using bounds(2) by (rule floor_unique)
      then show ?thesis ..
    next
      case False
      then have "of_int (m - 1) \<le> b + 1 / 2" "b + 1 / 2 < of_int (m - 1) + 1"
        using bounds(1) by simp_all
      then have "\<lfloor>b + 1 / 2\<rfloor> = m - 1"
        by (rule floor_unique)
      then show ?thesis ..
    qed
    moreover have "int ((200 * K + N) mod (2 * N)) = r"
      unfolding r_def by (simp only: zmod_int of_nat_add of_nat_mult of_nat_numeral)
    then have "(200 * K + N) mod (2 * N) = 0"
      using True by simp
    ultimately show ?thesis
      by (auto simp add: p m_def)
  next
    case False
    with r have "1 \<le> r" "r \<le> 2 * int N - 1"
      by simp_all
    then have "(of_int 1 :: rat) \<le> of_int r" "(of_int r :: rat) \<le> of_int (2 * int N - 1)"
      by (simp_all only: of_int_le_iff)
    then have "(1 :: rat) \<le> of_int r" "(of_int r :: rat) \<le> 2 * of_nat N - 1"
      by simp_all
    then have "1 * c \<le> of_int r * c" "of_int r * c \<le> (2 * of_nat N - 1) * c"
      using c by (simp_all only: mult_right_mono less_imp_le)
    then have rc: "c \<le> of_int r * c" "of_int r * c \<le> 1 - c"
      using c1(1) by (simp_all add: algebra_simps)
    have "of_int m \<le> b + 1 / 2" "b + 1 / 2 < of_int m + 1"
      using t err small rc by linarith+
    then have "\<lfloor>b + 1 / 2\<rfloor> = m"
      by (rule floor_unique)
    then show ?thesis
      by (simp add: p m_def)
  qed
qed

section \<open>Completion calculator: results\<close>

text \<open>
  For every list an array can hold (fewer than \<open>2\<^sup>3\<^sup>2\<close> tasks) the calculators return
  \<open>100 * K / N\<close> rounded half up (theorem \<open>percentage_spec\<close> with
  \<open>Math_round_exact\<close>), except that at an exact tie the result may be one less; the
  result lies in \<open>[0, 100]\<close>.
\<close>

lemma calculateCompletion_absent:
  "map_of tasks category = None \<Longrightarrow> category \<notin> set object_prototype_keys
   \<Longrightarrow> calculateCompletion tasks category = Inr 0"
  by (simp add: calculateCompletion_def get_property_def)

lemma calculateCompletion_empty:
  "map_of tasks category = Some [] \<Longrightarrow> calculateCompletion tasks category = Inr 0"
  by (simp add: calculateCompletion_def get_property_def percentage_def)

lemma calculateCompletion_inherited:
  "calculateCompletion [] ''constructor'' = Inl TypeError"
  by (simp add: calculateCompletion_def get_property_def object_prototype_keys_def)

lemma calculateCompletion_own:
  "map_of tasks category = Some ts \<Longrightarrow>
   calculateCompletion tasks category
     = Inr (percentage (length (filter completed ts)) (length ts))"
  by (simp add: calculateCompletion_def get_property_def Let_def)

lemma calculateCompletion_range:
  "calculateCompletion tasks category = Inr p \<Longrightarrow> 0 \<le> p \<and> p \<le> 100"
  using percentage_range [of "length (filter completed ts)" "length ts" for ts]
  by (auto simp add: calculateCompletion_def Let_def split: property.splits)

lemma calculateOverallCompletion_range:
  "0 \<le> calculateOverallCompletion tasks \<and> calculateOverallCompletion tasks \<le> 100"
  using percentage_range [of "length (filter completed ts)" "length ts" for ts]
  by (simp add: calculateOverallCompletion_def Let_def)

text \<open>The doubles of 0.1 and of 1/3, as every IEEE 754 implementation has them.\<close>

lemma fl_one_tenth: "fl (1 / 10) = 3602879701896397 / 36028797018963968"
  by code_simp

lemma fl_one_third: "fl (1 / 3) = 6004799503160661 / 18014398509481984"
  by code_simp

lemma percentage_3_of_8: "percentage 3 8 = 38"
  by code_simp

lemma percentage_1_of_3: "percentage 1 3 = 33"
  by code_simp

lemma percentage_2_of_3: "percentage 2 3 = 67"
  by code_simp

lemma percentage_4_of_8: "percentage 4 8 = 50"
  by code_simp

lemma calculateOverallCompletion_8_and_2:
  "calculateOverallCompletion document_8_and_2 = 20"
  by code_simp

text \<open>
  C1. \<^verbatim>\<open>calculateCompletion\<close> is claimed to return \<open>100 * K / N\<close> rounded to the nearest
  integer, a tie going up. For a category of 40 tasks of which 23 are completed the exact
  percentage is 57.5, which rounds to 58; the double \<^verbatim>\<open>(23 / 40) * 100\<close> lies below 57.5
  and \<^verbatim>\<open>Math.round\<close> gives 57.
\<close>

theorem calculateCompletion_23_of_40:
  "get_property document_23_of_40 ''technical'' = TaskArray category_23_of_40
   \<and> length category_23_of_40 = 40
   \<and> length (filter completed category_23_of_40) = 23
   \<and> js_mul (js_div 23 40) 100 = 8092405580431359 / 140737488355328
   \<and> calculateCompletion document_23_of_40 ''technical'' = Inr 57
   \<and> Math_round (100 * 23 / 40) = 58"
  by code_simp

text \<open>
  C2. \<^verbatim>\<open>calculateOverallCompletion\<close> is claimed to return
  \<open>100 * totalCompleted / totalTasks\<close> rounded to the nearest integer. For a document of
  two categories with 30 and 10 tasks, 13 and 10 of them completed, the exact percentage
  is 57.5 and the function returns 57.
\<close>

theorem calculateOverallCompletion_23_of_40:
  "length (concat (map snd document_overall_23_of_40)) = 40
   \<and> length (filter completed (concat (map snd document_overall_23_of_40))) = 23
   \<and> calculateOverallCompletion document_overall_23_of_40 = 57
   \<and> Math_round (100 * 23 / 40) = 58"
  by code_simp

section \<open>The operations when no storage call raises\<close>

lemmas action_defs = ret_def throw_def bind_def try_catch_def Date_now_def

lemmas redis_defs =
  redis_exists_TASKS_KEY_def redis_get_TASKS_KEY_def redis_set_TASKS_KEY_def
  redis_get_ACTIVITY_LOG_KEY_def redis_set_ACTIVITY_LOG_KEY_def
  redis_set_SEO_SCORE_KEY_def redis_set_INTEGRATION_STATUS_KEY_def

lemma faults_update_same: "faults w = fs \<Longrightarrow> w\<lparr>faults := fs\<rparr> = w"
  by (cases w) simp

lemma storage_call_no_fault:
  "faults w = [] \<Longrightarrow> storage_call operation w = (case operation w of (x, w') \<Rightarrow> (Inr x, w'))"
  by (simp add: storage_call_def next_call_raises_def faults_update_same)

lemma storage_call_fault:
  "faults w = f # fs \<Longrightarrow>
   storage_call operation w =
     (if f then (Inl StorageError, w\<lparr>faults := fs\<rparr>)
      else (case operation (w\<lparr>faults := fs\<rparr>) of (x, w') \<Rightarrow> (Inr x, w')))"
  by (simp add: storage_call_def next_call_raises_def)

lemma initializeRedisData_no_fault:
  "faults w = [] \<Longrightarrow>
   initializeRedisData w = (Inr (), if tasks_key w = None then seeded w else w)"
  by (simp add: initializeRedisData_def action_defs redis_defs storage_call_no_fault
      seeded_def)

lemma getTasks_no_fault:
  "faults w = [] \<Longrightarrow>
   getTasks w =
     (case tasks_key w of
        None \<Rightarrow> (Inr getDefaultTasks, seeded w)
      | Some t \<Rightarrow> (Inr t, w))"
  by (simp add: getTasks_def action_defs redis_defs storage_call_no_fault
      initializeRedisData_no_fault seeded_def split: option.splits)

lemma getActivityLog_no_fault:
  "faults w = [] \<Longrightarrow>
   getActivityLog w =
     (case tasks_key w of
        None \<Rightarrow> (Inr (seed_activity_log (clock w)), seeded w)
      | Some t \<Rightarrow> (Inr (case activity_log_key w of None \<Rightarrow> [] | Some l \<Rightarrow> l), w))"
  by (simp add: getActivityLog_def action_defs redis_defs storage_call_no_fault
      initializeRedisData_no_fault seeded_def split: option.splits)

lemma addActivityLog_no_fault:
  "faults w = [] \<Longrightarrow> tasks_key w = Some t \<Longrightarrow>
   addActivityLog a d w =
     (Inr (), w\<lparr>activity_log_key :=
                 Some (ActivityLogEntry a d (clock w)
                       # take 19 (case activity_log_key w of None \<Rightarrow> [] | Some l \<Rightarrow> l))\<rparr>)"
  by (simp add: addActivityLog_def action_defs redis_defs storage_call_no_fault
      getActivityLog_no_fault)

section \<open>Toggling\<close>

lemma toggle_toggle: "toggle taskId (toggle taskId t) = t"
  by (cases t) (simp add: toggle_def)

lemma map_toggle_toggle: "map (toggle taskId) (map (toggle taskId) ts) = ts"
  by (induction ts) (simp_all add: toggle_toggle)

lemma task_id_toggle: "task_id (toggle taskId t) = task_id t"
  by (simp add: toggle_def)

lemma find_map_toggle:
  "find (\<lambda>t. task_id t = taskId) (map (toggle taskId) ts)
   = map_option (toggle taskId) (find (\<lambda>t. task_id t = taskId) ts)"
  by (induction ts) (simp_all add: task_id_toggle)

lemma toggle_found: "task_id t = taskId \<Longrightarrow> toggle taskId t = t\<lparr>completed := \<not> completed t\<rparr>"
  by (simp add: toggle_def)

lemma find_task_id: "find (\<lambda>t. task_id t = taskId) ts = Some t \<Longrightarrow> task_id t = taskId"
  by (induction ts) (auto split: if_splits)

lemma get_property_own: "map_of tasks category = Some ts \<Longrightarrow> get_property tasks category = TaskArray ts"
  by (simp add: get_property_def)

lemma get_property_update:
  "get_property (AList.update category ts tasks) category = TaskArray ts"
  by (simp add: get_property_def update_conv')

lemma toggleTaskCompletion_found:
  assumes "faults w = []" and "tasks_key w = Some doc"
    and "map_of doc category = Some ts"
    and "find (\<lambda>t. task_id t = taskId) ts = Some task"
  shows "toggleTaskCompletion category taskId w =
           (Inr (AList.update category (map (toggle taskId) ts) doc),
            w\<lparr>tasks_key := Some (AList.update category (map (toggle taskId) ts) doc),
              activity_log_key := Some (toggle_entry category task (clock w) # take 19 (log_of w))\<rparr>)"
  using assms
  by (simp add: toggleTaskCompletion_def getTasks_no_fault get_property_own
      addActivityLog_no_fault storage_call_no_fault redis_set_TASKS_KEY_def
      action_defs toggle_entry_def log_of_def Let_def)

lemma toggleTaskCompletion_not_found:
  assumes "faults w = []" and "tasks_key w = Some doc"
    and "case map_of doc category of
           None \<Rightarrow> True
         | Some ts \<Rightarrow> find (\<lambda>t. task_id t = taskId) ts = None"
  shows "toggleTaskCompletion category taskId w = (Inl FailedToUpdateTaskStatus, w)"
  using assms
  by (auto simp add: toggleTaskCompletion_def getTasks_no_fault get_property_def
      action_defs Let_def split: option.splits)

section \<open>The operations under an arbitrary fault schedule\<close>

lemma initializeRedisData_returns: "fst (initializeRedisData w) = Inr ()"
  by (simp add: initializeRedisData_def action_defs redis_defs storage_call_def Let_def
      split: prod.splits sum.splits)

lemma initializeRedisData_eq: "initializeRedisData w = (Inr (), snd (initializeRedisData w))"
  using initializeRedisData_returns [of w] by (cases "initializeRedisData w") simp

lemma initializeRedisData_clock: "clock (snd (initializeRedisData w)) = clock w"
  by (simp add: initializeRedisData_def action_defs redis_defs storage_call_def Let_def
      split: prod.splits sum.splits)

lemma initializeRedisData_keeps_tasks:
  "tasks_key w = Some d \<Longrightarrow> tasks_key (snd (initializeRedisData w)) = Some d"
  by (simp add: initializeRedisData_def action_defs redis_defs storage_call_def Let_def
      split: prod.splits sum.splits)

lemma initializeRedisData_present:
  "tasks_key w = Some d \<Longrightarrow> snd (initializeRedisData w) = w\<lparr>faults := tl (faults w)\<rparr>"
  by (simp add: initializeRedisData_def action_defs redis_defs storage_call_def Let_def
      split: prod.splits sum.splits)

lemma initializeRedisData_tasks_key:
  "tasks_key (snd (initializeRedisData w)) = tasks_key w
   \<or> tasks_key w = None \<and> tasks_key (snd (initializeRedisData w)) = Some getDefaultTasks"
  by (simp add: initializeRedisData_def action_defs redis_defs storage_call_def Let_def
      split: prod.splits sum.splits)

lemma initializeRedisData_activity_log_key:
  "activity_log_key (snd (initializeRedisData w)) = activity_log_key w
   \<or> activity_log_key (snd (initializeRedisData w)) = Some (seed_activity_log (clock w))"
  by (simp add: initializeRedisData_def action_defs redis_defs storage_call_def Let_def
      split: prod.splits sum.splits)

lemma getTasks_eq:
  "getTasks w =
     (let w1 = snd (initializeRedisData w)
      in (Inr (if next_call_raises w1 then getDefaultTasks
               else case tasks_key w1 of None \<Rightarrow> getDefaultTasks | Some d \<Rightarrow> d),
          w1\<lparr>faults := tl (faults w1)\<rparr>))"
  unfolding getTasks_def try_catch_def bind_def
  by (subst initializeRedisData_eq)
     (simp add: redis_get_TASKS_KEY_def storage_call_def ret_def Let_def
      split: option.splits)

lemma getActivityLog_eq:
  "getActivityLog w =
     (let w1 = snd (initializeRedisData w)
      in (Inr (if next_call_raises w1 then [] else log_of w1),
          w1\<lparr>faults := tl (faults w1)\<rparr>))"
  unfolding getActivityLog_def try_catch_def bind_def
  by (subst initializeRedisData_eq)
     (simp add: redis_get_ACTIVITY_LOG_KEY_def storage_call_def ret_def Let_def log_of_def
      split: option.splits)

lemma addActivityLog_eq:
  "addActivityLog a d w =
     (let w2 = snd (getActivityLog w);
          log = (case fst (getActivityLog w) of Inr l \<Rightarrow> l | Inl e \<Rightarrow> []);
          w3 = w2\<lparr>faults := tl (faults w2)\<rparr>
      in (Inr (),
          if next_call_raises w2 then w3
          else w3\<lparr>activity_log_key := Some (ActivityLogEntry a d (clock w) # take 19 log)\<rparr>))"
  by (simp add: addActivityLog_def try_catch_def bind_def getActivityLog_eq Let_def
      redis_set_ACTIVITY_LOG_KEY_def storage_call_def ret_def Date_now_def
      initializeRedisData_clock)

lemma addActivityLog_returns: "fst (addActivityLog a d w) = Inr ()"
  by (simp add: addActivityLog_eq Let_def)

lemma addActivityLog_keeps_tasks:
  "tasks_key w = Some t \<Longrightarrow> tasks_key (snd (addActivityLog a d w)) = Some t"
  by (simp add: addActivityLog_eq getActivityLog_eq Let_def initializeRedisData_keeps_tasks)

lemma addActivityLog_bounded:
  "length (log_of w) \<le> 20 \<Longrightarrow> length (log_of (snd (addActivityLog a d w))) \<le> 20"
  using initializeRedisData_activity_log_key [of w]
  by (auto simp add: addActivityLog_eq getActivityLog_eq Let_def log_of_def
      seed_activity_log_def)

lemma addActivityLog_sequence_bounded:
  "length (log_of w) \<le> 20 \<Longrightarrow> length (log_of (addActivityLog_sequence calls w)) \<le> 20"
proof (induction calls arbitrary: w)
  case Nil
  then show ?case by simp
next
  case (Cons c calls)
  obtain a d now fs where c: "c = (a, d, now, fs)"
    by (cases c) auto
  have "length (log_of (w\<lparr>clock := now, faults := fs\<rparr>)) \<le> 20"
    using Cons.prems by (simp add: log_of_def)
  then have "length (log_of (snd (addActivityLog a d (w\<lparr>clock := now, faults := fs\<rparr>)))) \<le> 20"
    by (rule addActivityLog_bounded)
  then show ?case
    unfolding c by (simp add: Cons.IH)
qed

lemma bind_addActivityLog:
  "bind (addActivityLog a d) k w = k () (snd (addActivityLog a d w))"
  using addActivityLog_returns [of a d w]
  by (cases "addActivityLog a d w") (simp add: bind_def)

lemma toggleTaskCompletion_catalog_written:
  assumes "tasks_key w = Some doc"
    and "map_of doc category = Some ts"
    and "find (\<lambda>t. task_id t = taskId) ts = Some task"
    and "faults w = False # False # False # fs"
  shows "toggleTaskCompletion category taskId w =
           (Inr (AList.update category (map (toggle taskId) ts) doc),
            snd (addActivityLog
                   (if completed task then ''TASK_REOPENED'' else ''TASK_COMPLETED'')
                   ((if completed task then ''Reopened'' else ''Completed'')
                      @ '' task: '' @ name task @ '' in '' @ category)
                   (w\<lparr>faults := fs,
                      tasks_key := Some (AList.update category (map (toggle taskId) ts) doc)\<rparr>)))"
proof -
  have g: "getTasks w = (Inr doc, w\<lparr>faults := False # fs\<rparr>)"
    using assms(1,4)
    by (simp add: getTasks_eq initializeRedisData_present Let_def next_call_raises_def)
  show ?thesis
    unfolding toggleTaskCompletion_def try_catch_def
    using assms(2,3)
    by (simp add: bind_def [of getTasks] g get_property_own Let_def redis_set_TASKS_KEY_def
        storage_call_def next_call_raises_def bind_def [of "storage_call f" for f]
        bind_addActivityLog ret_def)
qed

lemma initializeRedisData_exists_raises:
  "faults w = True # fs \<Longrightarrow> initializeRedisData w = (Inr (), w\<lparr>faults := fs\<rparr>)"
  by (simp add: initializeRedisData_def action_defs redis_defs storage_call_def Let_def
      next_call_raises_def)

lemma addActivityLog_exists_raises:
  "faults w = [True] \<Longrightarrow>
   addActivityLog a d w =
     (Inr (), w\<lparr>faults := [],
               activity_log_key := Some (ActivityLogEntry a d (clock w) # take 19 (log_of w))\<rparr>)"
  by (simp add: addActivityLog_eq getActivityLog_eq initializeRedisData_exists_raises
      Let_def next_call_raises_def log_of_def)

lemma addActivityLog_no_fault_absent:
  "faults w = [] \<Longrightarrow> tasks_key w = None \<Longrightarrow>
   addActivityLog a d w =
     (Inr (), (seeded w)\<lparr>activity_log_key :=
                 Some (ActivityLogEntry a d (clock w) # seed_activity_log (clock w))\<rparr>)"
  by (simp add: addActivityLog_def action_defs redis_defs storage_call_no_fault
      getActivityLog_no_fault seeded_def seed_activity_log_def)





section \<open>Claims about the task repository and the activity log\<close>

text \<open>
  C3. With a stored catalog document in which \<open>(category, taskId)\<close> resolves to a task
  and a backend none of whose calls raises, two calls of \<^verbatim>\<open>toggleTaskCompletion\<close> in
  sequence (the clock may have moved in between) bring the task back to its original
  \<open>completed\<close> value: the first call flips it, the second call returns and stores the
  original document, so every other task and category is unchanged. Each call puts a
  new entry at the head of the stored activity log.
\<close>

theorem toggleTaskCompletion_twice:
  assumes "faults w = []" and "tasks_key w = Some doc"
    and "map_of doc category = Some ts"
    and "find (\<lambda>t. task_id t = taskId) ts = Some task"
  shows "(let first = toggleTaskCompletion category taskId w;
              second = toggleTaskCompletion category taskId ((snd first)\<lparr>clock := later\<rparr>);
              entry1 = toggle_entry category task (clock w);
              entry2 = toggle_entry category (task\<lparr>completed := \<not> completed task\<rparr>) later
          in fst first = Inr (AList.update category (map (toggle taskId) ts) doc)
           \<and> find (\<lambda>t. task_id t = taskId) (map (toggle taskId) ts)
               = Some (task\<lparr>completed := \<not> completed task\<rparr>)
           \<and> activity_log_key (snd first) = Some (entry1 # take 19 (log_of w))
           \<and> fst second = Inr doc
           \<and> tasks_key (snd second) = Some doc
           \<and> activity_log_key (snd second)
               = Some (entry2 # take 19 (entry1 # take 19 (log_of w))))"
proof -
  let ?doc1 = "AList.update category (map (toggle taskId) ts) doc"
  let ?w1 = "w\<lparr>tasks_key := Some ?doc1,
               activity_log_key := Some (toggle_entry category task (clock w) # take 19 (log_of w))\<rparr>"
  have id: "task_id task = taskId"
    using assms(4) by (rule find_task_id)
  have call1: "toggleTaskCompletion category taskId w = (Inr ?doc1, ?w1)"
    using assms by (rule toggleTaskCompletion_found)
  have found1: "find (\<lambda>t. task_id t = taskId) (map (toggle taskId) ts)
                = Some (task\<lparr>completed := \<not> completed task\<rparr>)"
    using assms(4) id by (simp add: find_map_toggle toggle_found)
  have restored: "AList.update category (map (toggle taskId) (map (toggle taskId) ts)) ?doc1 = doc"
    using assms(3) by (simp only: map_toggle_toggle update_last update_triv)
  have call2: "toggleTaskCompletion category taskId (?w1\<lparr>clock := later\<rparr>) =
      (Inr doc,
       ?w1\<lparr>clock := later, tasks_key := Some doc,
            activity_log_key :=
              Some (toggle_entry category (task\<lparr>completed := \<not> completed task\<rparr>) later
                    # take 19 (toggle_entry category task (clock w) # take 19 (log_of w)))\<rparr>)"
    using toggleTaskCompletion_found
      [of "?w1\<lparr>clock := later\<rparr>" ?doc1 category "map (toggle taskId) ts" taskId
          "task\<lparr>completed := \<not> completed task\<rparr>"]
      assms(1) found1 restored
    by (simp add: update_conv' log_of_def)
  show ?thesis
    by (simp add: call1 call2 found1 Let_def)
qed

theorem toggleTaskCompletion_twice_witness:
  "(let first = toggleTaskCompletion ''B'' 2 env_8_and_2;
        second = toggleTaskCompletion ''B'' 2 ((snd first)\<lparr>clock := 7\<rparr>)
    in fst first = Inr [(''A'', map (\<lambda>i. sample_task i False) [1..8]),
                        (''B'', [sample_task 1 True, sample_task 2 False])]
     \<and> fst second = Inr document_8_and_2
     \<and> tasks_key (snd second) = Some document_8_and_2
     \<and> activity_log_key (snd second) =
         Some [ActivityLogEntry ''TASK_COMPLETED'' ''Completed task: Fix broken links in B'' 7,
               ActivityLogEntry ''TASK_REOPENED'' ''Reopened task: Fix broken links in B'' 0])"
proof -
  have h1: "faults env_8_and_2 = []"
    by (simp add: env_8_and_2_def fresh_env_def)
  have h2: "tasks_key env_8_and_2 = Some document_8_and_2"
    by (simp add: env_8_and_2_def fresh_env_def)
  have h3: "map_of document_8_and_2 ''B'' = Some [sample_task 1 True, sample_task 2 True]"
    by (simp add: document_8_and_2_def upto.simps)
  have h4: "find (\<lambda>t. task_id t = 2) [sample_task 1 True, sample_task 2 True]
            = Some (sample_task 2 True)"
    by (simp add: sample_task_def)
  show ?thesis
    using toggleTaskCompletion_twice [OF h1 h2 h3 h4, of 7]
    by (simp add: Let_def toggle_entry_def toggle_def sample_task_def log_of_def
        env_8_and_2_def fresh_env_def document_8_and_2_def upto.simps)
qed

text \<open>
  C4. With a stored catalog document in which \<open>(category, taskId)\<close> does not resolve to a
  task (the category is unknown, or its list has no task with that id) and a backend none
  of whose calls raises, \<^verbatim>\<open>toggleTaskCompletion\<close> fails with an error and writes
  nothing: the store is left exactly as it was, catalog and activity log included, and a
  following \<^verbatim>\<open>getTasks\<close> returns the same document.
\<close>

theorem toggleTaskCompletion_not_found_no_write:
  assumes "faults w = []" and "tasks_key w = Some doc"
    and "\<not> (\<exists>ts task. map_of doc category = Some ts
                \<and> find (\<lambda>t. task_id t = taskId) ts = Some task)"
  shows "fst (toggleTaskCompletion category taskId w) = Inl FailedToUpdateTaskStatus
       \<and> snd (toggleTaskCompletion category taskId w) = w
       \<and> tasks_key (snd (toggleTaskCompletion category taskId w)) = Some doc
       \<and> activity_log_key (snd (toggleTaskCompletion category taskId w)) = activity_log_key w
       \<and> fst (getTasks (snd (toggleTaskCompletion category taskId w))) = Inr doc"
proof -
  have "case map_of doc category of
          None \<Rightarrow> True
        | Some ts \<Rightarrow> find (\<lambda>t. task_id t = taskId) ts = None"
    using assms(3) by (cases "map_of doc category") auto
  with assms(1,2) have "toggleTaskCompletion category taskId w = (Inl FailedToUpdateTaskStatus, w)"
    by (rule toggleTaskCompletion_not_found)
  then show ?thesis
    using assms(1,2) by (simp add: getTasks_no_fault)
qed

theorem toggleTaskCompletion_not_found_no_write_witness:
  "toggleTaskCompletion ''B'' 3 env_8_and_2 = (Inl FailedToUpdateTaskStatus, env_8_and_2)
   \<and> toggleTaskCompletion ''local'' 1 env_8_and_2 = (Inl FailedToUpdateTaskStatus, env_8_and_2)
   \<and> fst (getTasks env_8_and_2) = Inr document_8_and_2"
proof -
  have h1: "faults env_8_and_2 = []"
    by (simp add: env_8_and_2_def fresh_env_def)
  have h2: "tasks_key env_8_and_2 = Some document_8_and_2"
    by (simp add: env_8_and_2_def fresh_env_def)
  have h3: "\<not> (\<exists>ts task. map_of document_8_and_2 ''B'' = Some ts
                  \<and> find (\<lambda>t. task_id t = 3) ts = Some task)"
    by (simp add: document_8_and_2_def upto.simps sample_task_def)
  have h4: "\<not> (\<exists>ts task. map_of document_8_and_2 ''local'' = Some ts
                  \<and> find (\<lambda>t. task_id t = 1) ts = Some task)"
    by (simp add: document_8_and_2_def)
  show ?thesis
    using toggleTaskCompletion_not_found_no_write [OF h1 h2 h3]
      toggleTaskCompletion_not_found_no_write [OF h1 h2 h4]
    by (metis prod.collapse)
qed

text \<open>
  C5. The claim that an append to a log of 20 entries drops exactly the oldest entry and
  keeps the newest 20 fails when the catalog key is absent. Such a store is reached from
  a fresh one by 20 appends during each of which \<^verbatim>\<open>redis.exists\<close> raises: the catalog is
  never seeded and the log holds the 20 entries. The next append, on a backend that works,
  finds no catalog; \<^verbatim>\<open>initializeRedisData\<close> seeds the store and overwrites the log, and
  the stored log is the new entry followed by the \<open>SYSTEM_INIT\<close> entry: 2 entries, all
  20 old ones dropped.
\<close>

theorem addActivityLog_reseeds_full_log:
  "tasks_key env_log_without_catalog = None
   \<and> activity_log_key env_log_without_catalog = Some log_20
   \<and> length log_20 = 20
   \<and> faults env_log_without_catalog = []
   \<and> activity_log_key
        (snd (addActivityLog ''TASK_REOPENED'' ''Reopened task: t in A''
                (env_log_without_catalog\<lparr>clock := 21\<rparr>)))
       = Some [ActivityLogEntry ''TASK_REOPENED'' ''Reopened task: t in A'' 21,
               SeedLogEntry 1 21 ''SYSTEM_INIT''
                 ''SEO Dashboard initialized with default tasks'' ''System'']"
proof -
  have e: "env_log_without_catalog
           = fresh_env\<lparr>clock := 20, faults := [], activity_log_key := Some log_20\<rparr>"
    by (simp add: env_log_without_catalog_def exists_raising_appends_def upto.simps
        addActivityLog_exists_raises log_of_def fresh_env_def log_20_def)
  show ?thesis
    unfolding e
    by (simp add: addActivityLog_no_fault_absent fresh_env_def seeded_def
        seed_activity_log_def log_20_def)
qed

text \<open>
  C5, amended. The stored activity log never exceeds 20 entries under any sequence of
  \<^verbatim>\<open>addActivityLog\<close> calls, whatever the storage backend does during them. When no
  storage call raises and the catalog key is present, \<^verbatim>\<open>addActivityLog\<close> changes nothing
  but the stored log, which becomes the new entry followed by the first 19 entries of the
  old log in their order; on a log of 20 entries exactly the oldest (the last) is dropped.
  When no storage call raises and the catalog key is absent, the append seeds the store
  first and the stored log becomes the new entry followed by the \<open>SYSTEM_INIT\<close> entry.
  After an append during which no storage call raised the catalog key is present.
\<close>

theorem addActivityLog_prepends_and_caps:
  "(length (log_of w) \<le> 20 \<longrightarrow> length (log_of (addActivityLog_sequence calls w)) \<le> 20)
   \<and> (faults w = [] \<and> tasks_key w \<noteq> None \<longrightarrow>
        addActivityLog a d w
          = (Inr (), w\<lparr>activity_log_key :=
                         Some (ActivityLogEntry a d (clock w) # take 19 (log_of w))\<rparr>))
   \<and> (faults w = [] \<and> tasks_key w \<noteq> None \<and> activity_log_key w = Some entries
        \<and> length entries = 20 \<longrightarrow>
        activity_log_key (snd (addActivityLog a d w))
          = Some (ActivityLogEntry a d (clock w) # butlast entries))
   \<and> (faults w = [] \<and> tasks_key w = None \<longrightarrow>
        activity_log_key (snd (addActivityLog a d w))
          = Some [ActivityLogEntry a d (clock w),
                  SeedLogEntry 1 (clock w) ''SYSTEM_INIT''
                    ''SEO Dashboard initialized with default tasks'' ''System''])
   \<and> (faults w = [] \<longrightarrow> tasks_key (snd (addActivityLog a d w)) \<noteq> None)"
proof (intro conjI impI)
  assume "length (log_of w) \<le> 20"
  then show "length (log_of (addActivityLog_sequence calls w)) \<le> 20"
    by (rule addActivityLog_sequence_bounded)
next
  assume "faults w = [] \<and> tasks_key w \<noteq> None"
  then show "addActivityLog a d w
      = (Inr (), w\<lparr>activity_log_key :=
                     Some (ActivityLogEntry a d (clock w) # take 19 (log_of w))\<rparr>)"
    by (auto simp add: addActivityLog_no_fault log_of_def)
next
  assume h: "faults w = [] \<and> tasks_key w \<noteq> None \<and> activity_log_key w = Some entries
             \<and> length entries = 20"
  then obtain t where t: "tasks_key w = Some t"
    by auto
  have "take 19 entries = butlast entries"
    using h by (simp add: butlast_conv_take)
  then show "activity_log_key (snd (addActivityLog a d w))
             = Some (ActivityLogEntry a d (clock w) # butlast entries)"
    using h t by (simp add: addActivityLog_no_fault)
next
  assume "faults w = [] \<and> tasks_key w = None"
  then show "activity_log_key (snd (addActivityLog a d w))
      = Some [ActivityLogEntry a d (clock w),
              SeedLogEntry 1 (clock w) ''SYSTEM_INIT''
                ''SEO Dashboard initialized with default tasks'' ''System'']"
    by (simp add: addActivityLog_no_fault_absent seed_activity_log_def)
next
  assume h: "faults w = []"
  show "tasks_key (snd (addActivityLog a d w)) \<noteq> None"
  proof (cases "tasks_key w")
    case None
    with h show ?thesis
      by (simp add: addActivityLog_no_fault_absent seeded_def)
  next
    case (Some t)
    with h show ?thesis
      by (simp add: addActivityLog_no_fault)
  qed
qed

theorem addActivityLog_prepends_and_caps_witness:
  "length (log_of (addActivityLog_sequence
        [(''TASK_COMPLETED'', ''Completed task: t in A'', 21, []),
         (''TASK_REOPENED'', ''Reopened task: t in A'', 22, [False, True]),
         (''TASK_COMPLETED'', ''Completed task: t in A'', 23, [True])] env_log_20)) \<le> 20
   \<and> addActivityLog ''TASK_REOPENED'' ''Reopened task: t in A'' env_8_and_2
       = (Inr (), env_8_and_2\<lparr>activity_log_key :=
                     Some [ActivityLogEntry ''TASK_REOPENED'' ''Reopened task: t in A'' 0]\<rparr>)
   \<and> activity_log_key (snd (addActivityLog ''TASK_REOPENED'' ''Reopened task: t in A'' env_log_20))
       = Some (ActivityLogEntry ''TASK_REOPENED'' ''Reopened task: t in A'' 0 # butlast log_20)
   \<and> last log_20 = ActivityLogEntry ''TASK_COMPLETED'' ''Completed task: t in A'' 1
   \<and> activity_log_key (snd (addActivityLog ''TASK_REOPENED'' ''Reopened task: t in A'' fresh_env))
       = Some [ActivityLogEntry ''TASK_REOPENED'' ''Reopened task: t in A'' 0,
               SeedLogEntry 1 0 ''SYSTEM_INIT''
                 ''SEO Dashboard initialized with default tasks'' ''System'']
   \<and> tasks_key (snd (addActivityLog ''TASK_REOPENED'' ''Reopened task: t in A'' fresh_env))
       \<noteq> None"
proof -
  let ?calls = "[(''TASK_COMPLETED'', ''Completed task: t in A'', 21, []),
                 (''TASK_REOPENED'', ''Reopened task: t in A'', 22, [False, True]),
                 (''TASK_COMPLETED'', ''Completed task: t in A'', 23, [True])]"
  have h1: "length (log_of env_log_20) \<le> 20"
    by (simp add: env_log_20_def log_of_def log_20_def)
  have h2: "faults env_log_20 = [] \<and> tasks_key env_log_20 \<noteq> None
            \<and> activity_log_key env_log_20 = Some log_20 \<and> length log_20 = 20
            \<and> clock env_log_20 = 0"
    by (simp add: env_log_20_def env_8_and_2_def fresh_env_def log_20_def)
  have h3: "faults env_8_and_2 = [] \<and> tasks_key env_8_and_2 \<noteq> None
            \<and> clock env_8_and_2 = 0 \<and> log_of env_8_and_2 = []"
    by (simp add: env_8_and_2_def fresh_env_def log_of_def)
  have h4: "faults fresh_env = [] \<and> tasks_key fresh_env = None \<and> clock fresh_env = 0"
    by (simp add: fresh_env_def)
  have h5: "last log_20 = ActivityLogEntry ''TASK_COMPLETED'' ''Completed task: t in A'' 1"
    by (simp add: log_20_def upto.simps)
  note full = addActivityLog_prepends_and_caps
    [of env_log_20 ?calls "''TASK_REOPENED''" "''Reopened task: t in A''" log_20]
  note short = addActivityLog_prepends_and_caps
    [of env_8_and_2 ?calls "''TASK_REOPENED''" "''Reopened task: t in A''" log_20]
  note fresh = addActivityLog_prepends_and_caps
    [of fresh_env ?calls "''TASK_REOPENED''" "''Reopened task: t in A''" log_20]
  have c1: "length (log_of (addActivityLog_sequence ?calls env_log_20)) \<le> 20"
    using full h1 by blast
  have c2: "addActivityLog ''TASK_REOPENED'' ''Reopened task: t in A'' env_8_and_2
       = (Inr (), env_8_and_2\<lparr>activity_log_key :=
            Some (ActivityLogEntry ''TASK_REOPENED'' ''Reopened task: t in A''
                    (clock env_8_and_2) # take 19 (log_of env_8_and_2))\<rparr>)"
    using short h3 by blast
  have c3: "activity_log_key
        (snd (addActivityLog ''TASK_REOPENED'' ''Reopened task: t in A'' env_log_20))
       = Some (ActivityLogEntry ''TASK_REOPENED'' ''Reopened task: t in A''
                 (clock env_log_20) # butlast log_20)"
    using full h2 by blast
  have c4: "activity_log_key
        (snd (addActivityLog ''TASK_REOPENED'' ''Reopened task: t in A'' fresh_env))
       = Some [ActivityLogEntry ''TASK_REOPENED'' ''Reopened task: t in A'' (clock fresh_env),
               SeedLogEntry 1 (clock fresh_env) ''SYSTEM_INIT''
                 ''SEO Dashboard initialized with default tasks'' ''System'']"
    using fresh h4 by blast
  have c5: "tasks_key (snd (addActivityLog ''TASK_REOPENED'' ''Reopened task: t in A'' fresh_env))
       \<noteq> None"
    using fresh h4 by blast
  show ?thesis
    using c1 c2 c3 c4 c5 h2 h3 h4 h5 by simp
qed





text \<open>
  C7. When the catalog key is absent, \<^verbatim>\<open>getTasks\<close> returns exactly the static default
  catalog, whatever the backend does; and when no storage call raises it has stored
  that catalog under the key, so that a following \<^verbatim>\<open>redis.exists\<close> on the key is true.
\<close>

theorem getTasks_seeds_default_catalog:
  "(tasks_key w = None \<longrightarrow> fst (getTasks w) = Inr getDefaultTasks)
   \<and> (tasks_key w = None \<and> faults w = [] \<longrightarrow>
        tasks_key (snd (getTasks w)) = Some getDefaultTasks
        \<and> fst (redis_exists_TASKS_KEY (snd (getTasks w))) = Inr True
        \<and> fst (getTasks (snd (getTasks w))) = Inr getDefaultTasks)"
proof (intro conjI impI)
  assume "tasks_key w = None"
  then show "fst (getTasks w) = Inr getDefaultTasks"
    using initializeRedisData_tasks_key [of w]
    by (auto simp add: getTasks_eq Let_def)
next
  assume h: "tasks_key w = None \<and> faults w = []"
  then have g: "getTasks w = (Inr getDefaultTasks, seeded w)"
    by (simp add: getTasks_no_fault)
  have s: "faults (seeded w) = [] \<and> tasks_key (seeded w) = Some getDefaultTasks"
    using h by (simp add: seeded_def)
  show "tasks_key (snd (getTasks w)) = Some getDefaultTasks"
    by (simp add: g s)
  show "fst (redis_exists_TASKS_KEY (snd (getTasks w))) = Inr True"
    by (simp add: g s redis_exists_TASKS_KEY_def storage_call_no_fault)
  show "fst (getTasks (snd (getTasks w))) = Inr getDefaultTasks"
    by (simp add: g s getTasks_no_fault)
qed

theorem getTasks_seeds_default_catalog_witness:
  "getTasks fresh_env = (Inr getDefaultTasks, seeded fresh_env)
   \<and> tasks_key (seeded fresh_env) = Some getDefaultTasks
   \<and> fst (redis_exists_TASKS_KEY (seeded fresh_env)) = Inr True
   \<and> fst (getTasks (fresh_env\<lparr>faults := [False, True]\<rparr>)) = Inr getDefaultTasks"
proof -
  have h1: "tasks_key fresh_env = None \<and> faults fresh_env = []"
    by (simp add: fresh_env_def)
  have h2: "tasks_key (fresh_env\<lparr>faults := [False, True]\<rparr>) = None"
    by (simp add: fresh_env_def)
  have g: "getTasks fresh_env = (Inr getDefaultTasks, seeded fresh_env)"
    using h1 by (simp add: getTasks_no_fault)
  show ?thesis
    using getTasks_seeds_default_catalog [of fresh_env]
      getTasks_seeds_default_catalog [of "fresh_env\<lparr>faults := [False, True]\<rparr>"] h1 h2 g
    by simp
qed

text \<open>
  C8. Read of the activity log when its key is absent. The claim (an empty sequence even
  when nothing has been seeded) fails on a fresh store: \<^verbatim>\<open>getActivityLog\<close> runs
  \<^verbatim>\<open>initializeRedisData\<close> first, which finds no catalog, seeds all four documents and
  so the read returns the seeded \<open>SYSTEM_INIT\<close> entry.
\<close>

theorem getActivityLog_fresh_store_not_empty:
  "tasks_key fresh_env = None \<and> activity_log_key fresh_env = None
   \<and> seo_score_key fresh_env = None \<and> integration_status_key fresh_env = None
   \<and> faults fresh_env = []
   \<and> fst (getActivityLog fresh_env)
       = Inr [SeedLogEntry 1 0 ''SYSTEM_INIT''
                ''SEO Dashboard initialized with default tasks'' ''System'']
   \<and> fst (getActivityLog fresh_env) \<noteq> Inr []"
  by (simp add: getActivityLog_no_fault fresh_env_def seed_activity_log_def)

text \<open>
  C8, amended. When the activity-log key is absent and the catalog key is present (no
  seeding takes place), a read of the activity log returns an empty sequence, whatever
  the backend does. When the catalog key is absent as well and no storage call raises,
  the read seeds the store first and returns the one seeded \<open>SYSTEM_INIT\<close> entry.
\<close>

theorem getActivityLog_absent_key:
  "(activity_log_key w = None \<and> tasks_key w \<noteq> None \<longrightarrow> fst (getActivityLog w) = Inr [])
   \<and> (activity_log_key w = None \<and> tasks_key w = None \<and> faults w = [] \<longrightarrow>
        fst (getActivityLog w)
          = Inr [SeedLogEntry 1 (clock w) ''SYSTEM_INIT''
                   ''SEO Dashboard initialized with default tasks'' ''System'']
        \<and> activity_log_key (snd (getActivityLog w)) = Some (seed_activity_log (clock w)))"
proof (intro conjI impI)
  assume h: "activity_log_key w = None \<and> tasks_key w \<noteq> None"
  then obtain d where "tasks_key w = Some d"
    by auto
  then show "fst (getActivityLog w) = Inr []"
    using h by (simp add: getActivityLog_eq initializeRedisData_present Let_def log_of_def)
next
  assume h: "activity_log_key w = None \<and> tasks_key w = None \<and> faults w = []"
  then show "fst (getActivityLog w)
      = Inr [SeedLogEntry 1 (clock w) ''SYSTEM_INIT''
               ''SEO Dashboard initialized with default tasks'' ''System'']"
    by (simp add: getActivityLog_no_fault seed_activity_log_def)
  show "activity_log_key (snd (getActivityLog w)) = Some (seed_activity_log (clock w))"
    using h by (simp add: getActivityLog_no_fault seeded_def)
qed

theorem getActivityLog_absent_key_witness:
  "fst (getActivityLog env_8_and_2) = Inr []
   \<and> fst (getActivityLog (env_8_and_2\<lparr>faults := [True, True]\<rparr>)) = Inr []
   \<and> fst (getActivityLog (fresh_env\<lparr>clock := 5\<rparr>))
       = Inr [SeedLogEntry 1 5 ''SYSTEM_INIT''
                ''SEO Dashboard initialized with default tasks'' ''System'']"
proof -
  have h1: "activity_log_key env_8_and_2 = None \<and> tasks_key env_8_and_2 \<noteq> None"
    by (simp add: env_8_and_2_def fresh_env_def)
  have h2: "activity_log_key (env_8_and_2\<lparr>faults := [True, True]\<rparr>) = None
            \<and> tasks_key (env_8_and_2\<lparr>faults := [True, True]\<rparr>) \<noteq> None"
    by (simp add: env_8_and_2_def fresh_env_def)
  have h3: "activity_log_key (fresh_env\<lparr>clock := 5\<rparr>) = None
            \<and> tasks_key (fresh_env\<lparr>clock := 5\<rparr>) = None
            \<and> faults (fresh_env\<lparr>clock := 5\<rparr>) = []
            \<and> clock (fresh_env\<lparr>clock := 5\<rparr>) = 5"
    by (simp add: fresh_env_def)
  show ?thesis
    using getActivityLog_absent_key [of env_8_and_2]
      getActivityLog_absent_key [of "env_8_and_2\<lparr>faults := [True, True]\<rparr>"]
      getActivityLog_absent_key [of "fresh_env\<lparr>clock := 5\<rparr>"] h1 h2 h3
    by simp
qed

text \<open>
  C9. \<^verbatim>\<open>getTasks\<close> under a failing backend. The claim (the static default catalog in
  every run in which a storage call raises) fails when only \<^verbatim>\<open>redis.exists\<close> raises:
  \<^verbatim>\<open>initializeRedisData\<close> swallows that error, the following \<^verbatim>\<open>redis.get\<close> succeeds
  and \<^verbatim>\<open>getTasks\<close> returns the stored document.
\<close>

theorem getTasks_exists_raises_returns_stored:
  "fst (redis_exists_TASKS_KEY (env_8_and_2\<lparr>faults := [True]\<rparr>)) = Inl StorageError
   \<and> fst (getTasks (env_8_and_2\<lparr>faults := [True]\<rparr>)) = Inr document_8_and_2
   \<and> fst (getTasks (env_8_and_2\<lparr>faults := [True]\<rparr>)) \<noteq> Inr getDefaultTasks"
  by (simp add: getTasks_eq initializeRedisData_present Let_def next_call_raises_def
      env_8_and_2_def fresh_env_def redis_exists_TASKS_KEY_def storage_call_def
      document_8_and_2_def getDefaultTasks_def)

text \<open>
  C9, amended. \<^verbatim>\<open>getTasks\<close> never propagates a storage failure: it always returns a
  document, the static default catalog or the stored one. It returns the default
  catalog when its \<^verbatim>\<open>redis.get\<close> raises (the call that follows
  \<^verbatim>\<open>initializeRedisData\<close>) and when the catalog key is absent; when the key holds a
  document and the \<^verbatim>\<open>redis.get\<close> does not raise, it returns that document, also if
  \<^verbatim>\<open>redis.exists\<close> raised before.
\<close>

theorem getTasks_fail_open:
  "(fst (getTasks w) = Inr getDefaultTasks \<or> (\<exists>d. tasks_key w = Some d \<and> fst (getTasks w) = Inr d))
   \<and> (next_call_raises (snd (initializeRedisData w)) \<longrightarrow> fst (getTasks w) = Inr getDefaultTasks)
   \<and> (tasks_key w = None \<longrightarrow> fst (getTasks w) = Inr getDefaultTasks)
   \<and> (tasks_key w = Some doc \<and> \<not> next_call_raises (snd (initializeRedisData w))
        \<longrightarrow> fst (getTasks w) = Inr doc)"
  using initializeRedisData_tasks_key [of w]
  by (auto simp add: getTasks_eq Let_def initializeRedisData_keeps_tasks split: option.splits)

theorem getTasks_fail_open_witness:
  "fst (getTasks (env_8_and_2\<lparr>faults := [True, True]\<rparr>)) = Inr getDefaultTasks
   \<and> fst (getTasks (env_8_and_2\<lparr>faults := [False, True]\<rparr>)) = Inr getDefaultTasks
   \<and> fst (getTasks (fresh_env\<lparr>faults := [False, True]\<rparr>)) = Inr getDefaultTasks
   \<and> fst (getTasks (env_8_and_2\<lparr>faults := [True, False]\<rparr>)) = Inr document_8_and_2"
proof -
  have h: "tasks_key env_8_and_2 = Some document_8_and_2" "tasks_key fresh_env = None"
    by (simp_all add: env_8_and_2_def fresh_env_def)
  have r: "\<And>fs. snd (initializeRedisData (env_8_and_2\<lparr>faults := fs\<rparr>))
                 = env_8_and_2\<lparr>faults := tl fs\<rparr>"
    using h(1) by (simp add: initializeRedisData_present)
  show ?thesis
    using getTasks_fail_open [of "env_8_and_2\<lparr>faults := [True, True]\<rparr>" document_8_and_2]
      getTasks_fail_open [of "env_8_and_2\<lparr>faults := [False, True]\<rparr>" document_8_and_2]
      getTasks_fail_open [of "fresh_env\<lparr>faults := [False, True]\<rparr>" document_8_and_2]
      getTasks_fail_open [of "env_8_and_2\<lparr>faults := [True, False]\<rparr>" document_8_and_2]
      h
    by (simp add: r next_call_raises_def)
qed

text \<open>
  C10. When the catalog document is stored, \<open>(category, taskId)\<close> resolves to a task and
  the three storage calls up to the catalog write succeed, \<^verbatim>\<open>toggleTaskCompletion\<close>
  returns the updated document and has stored it, whatever the backend does afterwards:
  \<^verbatim>\<open>addActivityLog\<close> never throws. If the \<^verbatim>\<open>redis.set\<close> of the activity log raises
  (the third storage call of the append), the stored activity log is unchanged.
\<close>

theorem toggleTaskCompletion_survives_log_failure:
  assumes "tasks_key w = Some doc"
    and "map_of doc category = Some ts"
    and "find (\<lambda>t. task_id t = taskId) ts = Some task"
    and "faults w = False # False # False # fs"
  shows "fst (addActivityLog a d w') = Inr ()
       \<and> fst (toggleTaskCompletion category taskId w)
           = Inr (AList.update category (map (toggle taskId) ts) doc)
       \<and> tasks_key (snd (toggleTaskCompletion category taskId w))
           = Some (AList.update category (map (toggle taskId) ts) doc)
       \<and> (fs = e # g # True # rest \<longrightarrow>
            activity_log_key (snd (toggleTaskCompletion category taskId w))
              = activity_log_key w)"
proof -
  let ?doc1 = "AList.update category (map (toggle taskId) ts) doc"
  let ?w1 = "w\<lparr>faults := fs, tasks_key := Some ?doc1\<rparr>"
  have t: "tasks_key ?w1 = Some ?doc1"
    by simp
  have "fs = e # g # True # rest \<Longrightarrow>
        activity_log_key (snd (addActivityLog x y ?w1)) = activity_log_key w" for x y
    by (simp add: addActivityLog_eq getActivityLog_eq Let_def
        initializeRedisData_present [where d = ?doc1] next_call_raises_def)
  then show ?thesis
    by (simp add: toggleTaskCompletion_catalog_written [OF assms] addActivityLog_returns
        addActivityLog_keeps_tasks [OF t])
qed

theorem toggleTaskCompletion_survives_log_failure_witness:
  "fst (toggleTaskCompletion ''B'' 2
          (env_8_and_2\<lparr>faults := [False, False, False, False, False, True]\<rparr>))
     = Inr [(''A'', map (\<lambda>i. sample_task i False) [1..8]),
            (''B'', [sample_task 1 True, sample_task 2 False])]
   \<and> tasks_key (snd (toggleTaskCompletion ''B'' 2
          (env_8_and_2\<lparr>faults := [False, False, False, False, False, True]\<rparr>)))
     = Some [(''A'', map (\<lambda>i. sample_task i False) [1..8]),
             (''B'', [sample_task 1 True, sample_task 2 False])]
   \<and> activity_log_key (snd (toggleTaskCompletion ''B'' 2
          (env_8_and_2\<lparr>faults := [False, False, False, False, False, True]\<rparr>))) = None"
proof -
  let ?w = "env_8_and_2\<lparr>faults := [False, False, False, False, False, True]\<rparr>"
  have h1: "tasks_key ?w = Some document_8_and_2"
    by (simp add: env_8_and_2_def fresh_env_def)
  have h2: "map_of document_8_and_2 ''B'' = Some [sample_task 1 True, sample_task 2 True]"
    by (simp add: document_8_and_2_def upto.simps)
  have h3: "find (\<lambda>t. task_id t = 2) [sample_task 1 True, sample_task 2 True]
            = Some (sample_task 2 True)"
    by (simp add: sample_task_def)
  have h4: "faults ?w = False # False # False # [False, False, True]"
    by simp
  have h5: "activity_log_key ?w = None"
    by (simp add: env_8_and_2_def fresh_env_def)
  show ?thesis
    using toggleTaskCompletion_survives_log_failure [OF h1 h2 h3 h4, of _ _ _ False False "[]"] h5
    by (simp add: toggle_def sample_task_def document_8_and_2_def upto.simps)
qed

section \<open>Further facts\<close>

text \<open>
  Under an arbitrary fault schedule a toggle of a pair that resolves neither in the stored
  document nor in the default catalog (which \<^verbatim>\<open>getTasks\<close> falls back to) fails and
  leaves the four stored documents as they were.
\<close>

lemma toggleTaskCompletion_not_found_any_faults:
  assumes "tasks_key w = Some doc"
    and "case map_of doc category of
           None \<Rightarrow> True | Some ts \<Rightarrow> find (\<lambda>t. task_id t = taskId) ts = None"
    and "case map_of getDefaultTasks category of
           None \<Rightarrow> True | Some ts \<Rightarrow> find (\<lambda>t. task_id t = taskId) ts = None"
  shows "toggleTaskCompletion category taskId w
         = (Inl FailedToUpdateTaskStatus, w\<lparr>faults := tl (tl (faults w))\<rparr>)"
  using assms
  by (auto simp add: toggleTaskCompletion_def try_catch_def bind_def getTasks_eq Let_def
      initializeRedisData_present throw_def get_property_def
      split: option.splits)

text \<open>
  When the read of the log raises inside \<^verbatim>\<open>addActivityLog\<close> and the write goes through,
  the stored log becomes the new entry alone.
\<close>

lemma addActivityLog_after_failed_read:
  assumes "tasks_key w = Some doc" and "faults w = e # True # False # fs"
  shows "activity_log_key (snd (addActivityLog a d w)) = Some [ActivityLogEntry a d (clock w)]"
  using assms
  by (simp add: addActivityLog_eq getActivityLog_eq Let_def initializeRedisData_present
      next_call_raises_def)

end
